theory Spec2Isabelle
  imports Complex_Main
begin

section \<open>Python values, exceptions and log output\<close>

text \<open>
  The detector classes receive whatever the OPC UA node delivers. A value is a number
  (Python \<open>int\<close>, \<open>float\<close> or a numpy scalar, all read here as a real number) or a
  non-numeric object, for which a string stands.
\<close>

datatype pyval = PyNum real | PyStr string

text \<open>
  The exceptions that the modelled code and the operations it calls raise. Each of them
  derives from \<open>Exception\<close>.
\<close>

datatype error =
    TypeError
  | StatisticsError
  | ZeroDivisionError
  | IndexError
  | UnboundLocalError
  | OverflowError
  | AttributeError

text \<open>
  One constructor for each \<open>logger.error\<close> call site of the modelled methods, with the
  values its message is formatted from.
\<close>

datatype log_record =
    Threshold_not_above_zero
  | Anomaly_ratio_failed string error
  | Anomaly_of_model_failed string error
  | No_inrush_current_detected error

section \<open>The numeric operations the detector calls\<close>

text \<open>
  The detector computes with \<open>statistics.mean\<close>, \<open>statistics.stdev\<close>, the built-in
  \<open>round\<close> and float arithmetic. None of them is code of the repository, and what they
  return on binary floating point (and when they raise: \<open>OverflowError\<close> on numbers
  beyond the float range, for one) is not a function of the real numbers alone. The
  detector's methods are therefore modelled over a record of these operations:
  \<^item> \<open>rt_mean\<close> and \<open>rt_stdev\<close> are \<open>statistics.mean\<close> and \<open>statistics.stdev\<close>;
  \<^item> \<open>rt_quotient value avg std\<close> is the expression \<open>(abs(value) - avg) / std\<close>;
  \<^item> \<open>rt_round n x\<close> is \<open>round(x, n)\<close>, which raises nothing on a float.
  A general statement holds for every such record. \<open>python\<close> below is the record of the
  operations as Python documents them, computed on real numbers; the statements about
  concrete numbers are about it.
\<close>

record runtime =
  rt_mean :: "pyval list \<Rightarrow> error + real"
  rt_stdev :: "pyval list \<Rightarrow> error + real"
  rt_quotient :: "pyval \<Rightarrow> real \<Rightarrow> real \<Rightarrow> error + real"
  rt_round :: "nat \<Rightarrow> real \<Rightarrow> real"

subsection \<open>Built-ins: \<open>abs\<close>, true division, \<open>round\<close>\<close>

definition py_abs :: "pyval \<Rightarrow> error + real" where
  "py_abs v = (case v of PyNum r \<Rightarrow> Inr \<bar>r\<bar> | PyStr s \<Rightarrow> Inl TypeError)"

definition py_div :: "real \<Rightarrow> real \<Rightarrow> error + real" where
  "py_div a b = (if b = 0 then Inl ZeroDivisionError else Inr (a / b))"

text \<open>
  \<open>round(x, n)\<close> gives the number with \<open>n\<close> decimals that is nearest to the float
  \<open>x\<close>. Where the real number that the float stands for lies exactly halfway between
  two such numbers, the float itself lies below the middle, above it, or on it (and then
  the neighbour with the even last digit is taken): \<open>round(1/80, 3)\<close> is 0.013 and
  \<open>round(0.125, 2)\<close> is 0.12. The real number does not say which, so the direction is
  a parameter: \<open>up n x\<close> holds when \<open>round(x, n)\<close> is the upper neighbour of such an
  \<open>x\<close>.
\<close>

definition py_round :: "(nat \<Rightarrow> real \<Rightarrow> bool) \<Rightarrow> nat \<Rightarrow> real \<Rightarrow> real" where
  "py_round up n x =
     (let y = x * 10 ^ n; f = \<lfloor>y\<rfloor>; d = y - of_int f
      in of_int (if d < 1 / 2 then f
                 else if 1 / 2 < d then f + 1
                 else if up n x then f + 1 else f)
         / 10 ^ n)"

subsection \<open>The \<open>statistics\<close> module\<close>

text \<open>The numbers of a data list, or \<open>None\<close> when an element is not a number.\<close>

fun numbers :: "pyval list \<Rightarrow> real list option" where
  "numbers [] = Some []"
| "numbers (PyNum r # vs) = map_option ((#) r) (numbers vs)"
| "numbers (PyStr s # vs) = None"

text \<open>
  \<open>statistics.mean\<close> raises \<open>StatisticsError\<close> on empty data and \<open>TypeError\<close> on a
  non-numeric element. \<open>statistics.stdev\<close> is the sample standard deviation (divisor
  \<open>n - 1\<close>) and raises \<open>StatisticsError\<close> on fewer than two data points.
\<close>

definition statistics_mean :: "pyval list \<Rightarrow> error + real" where
  "statistics_mean data =
     (if data = [] then Inl StatisticsError
      else case numbers data of
             None \<Rightarrow> Inl TypeError
           | Some xs \<Rightarrow> Inr (sum_list xs / real (length xs)))"

definition statistics_stdev :: "pyval list \<Rightarrow> error + real" where
  "statistics_stdev data =
     (case numbers data of
        None \<Rightarrow> Inl TypeError
      | Some xs \<Rightarrow>
          if length xs < 2 then Inl StatisticsError
          else let m = sum_list xs / real (length xs)
               in Inr (sqrt (sum_list (map (\<lambda>x. (x - m)\<^sup>2) xs) / real (length xs - 1))))"

text \<open>\<open>(abs(value) - avg) / std\<close>\<close>

definition quotient :: "pyval \<Rightarrow> real \<Rightarrow> real \<Rightarrow> error + real" where
  "quotient v avg std =
     (case py_abs v of Inl e \<Rightarrow> Inl e | Inr a \<Rightarrow> py_div (a - avg) std)"

definition python :: "(nat \<Rightarrow> real \<Rightarrow> bool) \<Rightarrow> runtime" where
  "python up =
     \<lparr> rt_mean = statistics_mean,
       rt_stdev = statistics_stdev,
       rt_quotient = quotient,
       rt_round = py_round up \<rparr>"

section \<open>The detector unit: class \<open>AnomalyDetectionZscore\<close>\<close>

record detector =
  model_data :: "pyval list"
  model_size :: int
  anomaly_list :: "int list"
  anomaly_list_size :: int
  anomaly_ratio :: real
  anomaly :: int
  model_avg :: real
  model_std_dev :: real
  z_score :: real
  z_score_thresh :: real
  name :: string

text \<open>\<open>__init__\<close>\<close>

definition new_detector :: "string \<Rightarrow> int \<Rightarrow> int \<Rightarrow> detector" where
  "new_detector nm msize alsize =
     \<lparr> model_data = [],
       model_size = msize,
       anomaly_list = [],
       anomaly_list_size = alsize,
       anomaly_ratio = 0,
       anomaly = 0,
       model_avg = 0,
       model_std_dev = 0,
       z_score = 0,
       z_score_thresh = 0,
       name = nm \<rparr>"

text \<open>The setter of the property \<open>z_score_thresh\<close>; it returns the unit and what it logged.\<close>

definition set_z_score_thresh :: "detector \<Rightarrow> real \<Rightarrow> detector \<times> log_record list" where
  "set_z_score_thresh u z_score_threshold =
     (if z_score_threshold = 0
      then (u\<lparr>z_score_thresh := 2\<rparr>, [Threshold_not_above_zero])
      else (u\<lparr>z_score_thresh := z_score_threshold\<rparr>, []))"

definition reset_algorithm :: "detector \<Rightarrow> detector" where
  "reset_algorithm u =
     u\<lparr> model_data := [],
        anomaly_list := [],
        anomaly_ratio := 0,
        anomaly := 0,
        model_avg := 0,
        model_std_dev := 0,
        z_score := 0 \<rparr>"

definition is_model_complete :: "detector \<Rightarrow> bool" where
  "is_model_complete u = (int (length (model_data u)) = model_size u)"

text \<open>
  The body of the \<open>try\<close> block of \<open>calculate_anomaly_ratio\<close>: the unit as the body left
  it, and the exception it raised, if any. \<open>pop(0)\<close> and \<open>append\<close> have already changed
  the list when the division raises.
\<close>

definition calculate_anomaly_ratio_try :: "runtime \<Rightarrow> detector \<Rightarrow> detector \<times> error option" where
  "calculate_anomaly_ratio_try rt u =
     (if is_model_complete u then
        if int (length (anomaly_list u)) < anomaly_list_size u
        then (u\<lparr>anomaly_list := anomaly_list u @ [anomaly u]\<rparr>, None)
        else (case anomaly_list u of
                [] \<Rightarrow> (u, Some IndexError)
              | x # xs \<Rightarrow>
                  (let u1 = u\<lparr>anomaly_list := xs @ [anomaly u]\<rparr>
                   in (case py_div (of_int (sum_list (anomaly_list u1)))
                                   (of_int (anomaly_list_size u1)) of
                         Inl e \<Rightarrow> (u1, Some e)
                       | Inr q \<Rightarrow> (u1\<lparr>anomaly_ratio := rt_round rt 3 q\<rparr>, None))))
      else (u, None))"

text \<open>\<open>except Exception as e\<close>: the exception is logged with the unit's name and dropped.\<close>

definition calculate_anomaly_ratio :: "runtime \<Rightarrow> detector \<Rightarrow> detector \<times> log_record list" where
  "calculate_anomaly_ratio rt u =
     (case calculate_anomaly_ratio_try rt u of
        (u', None) \<Rightarrow> (u', [])
      | (u', Some e) \<Rightarrow> (u', [Anomaly_ratio_failed (name u') e]))"

text \<open>
  The body of the \<open>try\<close> block of \<open>check_if_anomaly\<close> in \<open>helper.py\<close>. Every assignment
  to a field is a state of its own, so that the unit returned with an exception is the
  unit as the statements before the raising one left it.
\<close>

definition check_if_anomaly_try ::
  "runtime \<Rightarrow> detector \<Rightarrow> pyval \<Rightarrow> detector \<times> error option" where
  "check_if_anomaly_try rt u v =
     (if is_model_complete u then
        (case rt_mean rt (model_data u) of
           Inl e \<Rightarrow> (u, Some e)
         | Inr m \<Rightarrow>
             (let u1 = u\<lparr>model_avg := \<bar>m\<bar>\<rparr>
              in (case rt_stdev rt (model_data u1) of
                    Inl e \<Rightarrow> (u1, Some e)
                  | Inr s \<Rightarrow>
                      (let u2 = u1\<lparr>model_std_dev := \<bar>s\<bar>\<rparr>;
                           u3 = (if model_std_dev u2 = 0
                                 then u2\<lparr>model_std_dev := 1 / 1000\<rparr> else u2)
                       in (case rt_quotient rt v (model_avg u3) (model_std_dev u3) of
                             Inl e \<Rightarrow> (u3, Some e)
                           | Inr q \<Rightarrow>
                               (let u4 = u3\<lparr>z_score := rt_round rt 4 q\<rparr>
                                in if \<bar>z_score u4\<bar> > z_score_thresh u4
                                   then (u4\<lparr>anomaly := 1\<rparr>, None)
                                   else (case model_data u4 of
                                           [] \<Rightarrow> (u4, Some IndexError)
                                         | x # xs \<Rightarrow>
                                             (u4\<lparr>model_data := xs @ [v],
                                                 anomaly := 0\<rparr>, None))))))))
      else (u\<lparr>model_data := model_data u @ [v]\<rparr>, None))"

definition check_if_anomaly ::
  "runtime \<Rightarrow> detector \<Rightarrow> pyval \<Rightarrow> detector \<times> log_record list" where
  "check_if_anomaly rt u v =
     (case check_if_anomaly_try rt u v of
        (u', None) \<Rightarrow> (u', [])
      | (u', Some e) \<Rightarrow> (u', [Anomaly_of_model_failed (name u') e]))"

text \<open>
  The same method as the scripts \<open>single_signal_anomaly_detect_zscore\<close> and
  \<open>air_valve_anomaly_detect_zscore\<close> have it: the mean is rounded to three decimals and
  so is the z-score.
\<close>

definition check_if_anomaly_try_script ::
  "runtime \<Rightarrow> detector \<Rightarrow> pyval \<Rightarrow> detector \<times> error option" where
  "check_if_anomaly_try_script rt u v =
     (if is_model_complete u then
        (case rt_mean rt (model_data u) of
           Inl e \<Rightarrow> (u, Some e)
         | Inr m \<Rightarrow>
             (let u1 = u\<lparr>model_avg := rt_round rt 3 \<bar>m\<bar>\<rparr>
              in (case rt_stdev rt (model_data u1) of
                    Inl e \<Rightarrow> (u1, Some e)
                  | Inr s \<Rightarrow>
                      (let u2 = u1\<lparr>model_std_dev := \<bar>s\<bar>\<rparr>;
                           u3 = (if model_std_dev u2 = 0
                                 then u2\<lparr>model_std_dev := 1 / 1000\<rparr> else u2)
                       in (case rt_quotient rt v (model_avg u3) (model_std_dev u3) of
                             Inl e \<Rightarrow> (u3, Some e)
                           | Inr q \<Rightarrow>
                               (let u4 = u3\<lparr>z_score := rt_round rt 3 q\<rparr>
                                in if \<bar>z_score u4\<bar> > z_score_thresh u4
                                   then (u4\<lparr>anomaly := 1\<rparr>, None)
                                   else (case model_data u4 of
                                           [] \<Rightarrow> (u4, Some IndexError)
                                         | x # xs \<Rightarrow>
                                             (u4\<lparr>model_data := xs @ [v],
                                                 anomaly := 0\<rparr>, None))))))))
      else (u\<lparr>model_data := model_data u @ [v]\<rparr>, None))"

definition check_if_anomaly_script ::
  "runtime \<Rightarrow> detector \<Rightarrow> pyval \<Rightarrow> detector \<times> log_record list" where
  "check_if_anomaly_script rt u v =
     (case check_if_anomaly_try_script rt u v of
        (u', None) \<Rightarrow> (u', [])
      | (u', Some e) \<Rightarrow> (u', [Anomaly_of_model_failed (name u') e]))"

subsection \<open>Driving a unit\<close>

text \<open>
  The results of calling \<open>check_if_anomaly\<close> with the values of a list, one after the
  other: after each call, the unit and what the call logged.
\<close>

fun check_trace ::
  "runtime \<Rightarrow> detector \<Rightarrow> pyval list \<Rightarrow> (detector \<times> log_record list) list" where
  "check_trace rt u [] = []"
| "check_trace rt u (v # vs) =
     (let r = check_if_anomaly rt u v in r # check_trace rt (fst r) vs)"

text \<open>
  What a caller can see of the model after a call: the window, whether the model is
  complete, and the anomaly flag.
\<close>

definition observe :: "detector \<Rightarrow> pyval list \<times> bool \<times> int" where
  "observe u = (model_data u, is_model_complete u, anomaly u)"

text \<open>
  \<open>calculate_anomaly_ratio\<close> reads the flag from the field \<open>anomaly\<close>. A unit is fed
  a list of flags when each one is the value of that field at one call.
\<close>

fun record_flags :: "runtime \<Rightarrow> detector \<Rightarrow> int list \<Rightarrow> detector" where
  "record_flags rt u [] = u"
| "record_flags rt u (f # fs) =
     record_flags rt (fst (calculate_anomaly_ratio rt (u\<lparr>anomaly := f\<rparr>))) fs"

section \<open>The electrical feature pipeline: class \<open>OpcHandlerAnalytics\<close>\<close>

subsection \<open>Current asymmetry\<close>

text \<open>
  \<open>calculate_el_current_assymetry\<close> is written for any numbers. Called with Python
  numbers, a division by zero raises \<open>ZeroDivisionError\<close>. \<open>read_values\<close> calls it with
  the sums of numpy arrays, which are \<open>numpy.float64\<close> scalars: there a division by
  zero raises nothing and yields \<open>nan\<close> (zero by zero) or an infinity (of the sign the
  operands have), with a \<open>RuntimeWarning\<close>.
\<close>

datatype number_kind = Python_number | Numpy_float64

datatype float_value = Finite real | Infinity | NaN

definition calculate_el_current_assymetry ::
  "number_kind \<Rightarrow> real \<Rightarrow> real \<Rightarrow> real \<Rightarrow> error + float_value" where
  "calculate_el_current_assymetry kind el_current_integr_ph1_total
       el_current_integr_ph2_total el_current_integr_ph3_total =
     (let el_current_integr_mean =
            (el_current_integr_ph1_total + el_current_integr_ph2_total
               + el_current_integr_ph3_total) / 3;
          deviation =
            \<bar>el_current_integr_ph1_total - el_current_integr_mean\<bar>
            + \<bar>el_current_integr_ph2_total - el_current_integr_mean\<bar>
            + \<bar>el_current_integr_ph3_total - el_current_integr_mean\<bar>
      in if el_current_integr_mean = 0 then
           (case kind of
              Python_number \<Rightarrow> Inl ZeroDivisionError
            | Numpy_float64 \<Rightarrow> Inr (if deviation = 0 then NaN else Infinity))
         else Inr (Finite (100 * (deviation / el_current_integr_mean))))"

subsection \<open>Peak detection\<close>

text \<open>
  Modelled from the spec: the peak-detection routine with a configured minimum peak
  height. The code calls \<open>scipy.signal.find_peaks(samples, height=height_of_peak)\<close>,
  a library routine that is not among the repository's sources. As documented, it
  returns the indices of the local maxima of the samples, found by comparing
  neighbouring values: a sample (or the middle sample of a flat run of equal samples,
  rounded down) that is greater than the sample before and the sample after; the first
  and the last sample are never peaks. Of these it keeps the ones whose value is at
  least \<open>height\<close>.

  \<open>local_maxima_scan j prev start xs\<close> walks over the samples \<open>xs\<close> that begin at
  index \<open>j\<close>; \<open>prev\<close> is the sample before, and \<open>start\<close> the index at which the
  samples last rose to \<open>prev\<close>, while no fall has followed.
\<close>

fun local_maxima_scan :: "nat \<Rightarrow> real \<Rightarrow> nat option \<Rightarrow> real list \<Rightarrow> nat list" where
  "local_maxima_scan j prev start [] = []"
| "local_maxima_scan j prev start (x # xs) =
     (if prev < x then local_maxima_scan (Suc j) x (Some j) xs
      else if x < prev then
        (case start of
           Some l \<Rightarrow> ((l + (j - 1)) div 2) # local_maxima_scan (Suc j) x None xs
         | None \<Rightarrow> local_maxima_scan (Suc j) x None xs)
      else local_maxima_scan (Suc j) x start xs)"

definition local_maxima_1d :: "real list \<Rightarrow> nat list" where
  "local_maxima_1d x = (case x of [] \<Rightarrow> [] | x0 # xs \<Rightarrow> local_maxima_scan 1 x0 None xs)"

definition find_peaks :: "real list \<Rightarrow> real \<Rightarrow> nat list" where
  "find_peaks x height = filter (\<lambda>p. height \<le> x ! p) (local_maxima_1d x)"

subsection \<open>Inrush current\<close>

text \<open>Indexing a list or an array: a negative index counts from the end.\<close>

definition py_index :: "'a list \<Rightarrow> int \<Rightarrow> error + 'a" where
  "py_index xs i =
     (if 0 \<le> i \<and> i < int (length xs) then Inr (xs ! nat i)
      else if i < 0 \<and> - int (length xs) \<le> i then Inr (xs ! nat (int (length xs) + i))
      else Inl IndexError)"

record opc_handler =
  el_current_integr_ph1_analytics :: detector
  el_current_integr_ph2_analytics :: detector
  el_current_integr_ph3_analytics :: detector
  el_inrush_current_ph1_analytics :: detector
  el_inrush_current_ph2_analytics :: detector
  el_inrush_current_ph3_analytics :: detector

text \<open>
  \<open>calculate_inrush_current_analytics\<close> has one block per phase, the same but for the
  phase's names: when the phase has enough peaks, the sample at the chosen peak is the
  phase's inrush current, and the phase's unit classifies it. The block's result is the
  value the local variable \<open>inrush_current_phN\<close> is bound to, if it is bound. The
  indexing stands outside every \<open>try\<close>: its exception leaves the method.
\<close>

definition inrush_phase ::
  "runtime \<Rightarrow> detector \<Rightarrow> real list \<Rightarrow> nat list \<Rightarrow> real \<Rightarrow> int
     \<Rightarrow> error + (real option \<times> detector \<times> log_record list)" where
  "inrush_phase rt u samples peaks z_threshold_inrush peak_number =
     (if 0 < length peaks \<and> peak_number \<le> int (length peaks) then
        (case py_index peaks (peak_number - 1) of
           Inl e \<Rightarrow> Inl e
         | Inr p \<Rightarrow>
             (case py_index samples (int p) of
                Inl e \<Rightarrow> Inl e
              | Inr inrush_current \<Rightarrow>
                  (let r1 = set_z_score_thresh u z_threshold_inrush;
                       r2 = check_if_anomaly rt (fst r1) (PyNum inrush_current);
                       r3 = calculate_anomaly_ratio rt (fst r2)
                   in Inr (Some inrush_current, fst r3, snd r1 @ snd r2 @ snd r3))))
      else Inr (None, u, []))"

text \<open>What the method returns for a phase: its inrush current, or \<open>False\<close>.\<close>

datatype inrush_value = Inrush real | PyFalse

text \<open>
  The \<open>return\<close> of the three local variables raises \<open>UnboundLocalError\<close> when one of
  them was never bound; the handler around it logs the exception and returns
  \<open>False, False, False\<close>.
\<close>

definition calculate_inrush_current_analytics ::
  "runtime \<Rightarrow> opc_handler \<Rightarrow> real list \<Rightarrow> real list \<Rightarrow> real list \<Rightarrow> real \<Rightarrow> real \<Rightarrow> int
     \<Rightarrow> error + ((inrush_value \<times> inrush_value \<times> inrush_value)
                 \<times> opc_handler \<times> log_record list)" where
  "calculate_inrush_current_analytics rt h el_current_ph1_samples el_current_ph2_samples
       el_current_ph3_samples z_threshold_inrush height_of_peak peak_number =
     (let el_current_peaks_ph1 = find_peaks el_current_ph1_samples height_of_peak;
          el_current_peaks_ph2 = find_peaks el_current_ph2_samples height_of_peak;
          el_current_peaks_ph3 = find_peaks el_current_ph3_samples height_of_peak
      in (case inrush_phase rt (el_inrush_current_ph1_analytics h) el_current_ph1_samples
                 el_current_peaks_ph1 z_threshold_inrush peak_number of
            Inl e \<Rightarrow> Inl e
          | Inr (i1, u1, l1) \<Rightarrow>
         (case inrush_phase rt (el_inrush_current_ph2_analytics h) el_current_ph2_samples
                 el_current_peaks_ph2 z_threshold_inrush peak_number of
            Inl e \<Rightarrow> Inl e
          | Inr (i2, u2, l2) \<Rightarrow>
         (case inrush_phase rt (el_inrush_current_ph3_analytics h) el_current_ph3_samples
                 el_current_peaks_ph3 z_threshold_inrush peak_number of
            Inl e \<Rightarrow> Inl e
          | Inr (i3, u3, l3) \<Rightarrow>
              (let h' = h\<lparr> el_inrush_current_ph1_analytics := u1,
                           el_inrush_current_ph2_analytics := u2,
                           el_inrush_current_ph3_analytics := u3 \<rparr>
               in (case (i1, i2, i3) of
                     (Some a, Some b, Some c) \<Rightarrow>
                       Inr ((Inrush a, Inrush b, Inrush c), h', l1 @ l2 @ l3)
                   | _ \<Rightarrow>
                       Inr ((PyFalse, PyFalse, PyFalse), h',
                            l1 @ l2 @ l3
                              @ [No_inrush_current_detected UnboundLocalError])))))))"

text \<open>
  \<open>read_values\<close> writes the cycle's record of derived values to the database only
  under this condition on the three results.
\<close>

definition analytics_written :: "inrush_value \<times> inrush_value \<times> inrush_value \<Rightarrow> bool" where
  "analytics_written r =
     (case r of (el_inrush_current_ph1, el_inrush_current_ph2, el_inrush_current_ph3) \<Rightarrow>
        el_inrush_current_ph1 \<noteq> PyFalse
        \<and> el_inrush_current_ph2 \<noteq> PyFalse
        \<and> el_inrush_current_ph3 \<noteq> PyFalse)"

section \<open>Resetting a unit\<close>

text \<open>
  C10. \<open>reset_algorithm\<close> puts \<open>model_data\<close>, \<open>anomaly_list\<close>, \<open>anomaly_ratio\<close>,
  \<open>anomaly\<close>, \<open>model_avg\<close>, \<open>model_std_dev\<close> and \<open>z_score\<close> back to the values
  \<open>__init__\<close> gives them, and leaves the z-score threshold, the name and the two
  capacities as they were: a configured threshold survives a reset.
\<close>

theorem reset_algorithm_frame:
  "model_data (reset_algorithm u) = model_data (new_detector nm m k)
   \<and> anomaly_list (reset_algorithm u) = anomaly_list (new_detector nm m k)
   \<and> anomaly_ratio (reset_algorithm u) = anomaly_ratio (new_detector nm m k)
   \<and> anomaly (reset_algorithm u) = anomaly (new_detector nm m k)
   \<and> model_avg (reset_algorithm u) = model_avg (new_detector nm m k)
   \<and> model_std_dev (reset_algorithm u) = model_std_dev (new_detector nm m k)
   \<and> z_score (reset_algorithm u) = z_score (new_detector nm m k)
   \<and> model_data (reset_algorithm u) = []
   \<and> anomaly_list (reset_algorithm u) = []
   \<and> anomaly_ratio (reset_algorithm u) = 0
   \<and> anomaly (reset_algorithm u) = 0
   \<and> model_avg (reset_algorithm u) = 0
   \<and> model_std_dev (reset_algorithm u) = 0
   \<and> z_score (reset_algorithm u) = 0
   \<and> z_score_thresh (reset_algorithm u) = z_score_thresh u
   \<and> name (reset_algorithm u) = name u
   \<and> model_size (reset_algorithm u) = model_size u
   \<and> anomaly_list_size (reset_algorithm u) = anomaly_list_size u"
  by (simp add: reset_algorithm_def new_detector_def)

section \<open>Facts about one call of \<open>check_if_anomaly\<close>\<close>

lemma statistics_mean_Nil: "statistics_mean [] = Inl StatisticsError"
  by (simp add: statistics_mean_def)

lemma python_mean_Nil: "rt_mean (python up) [] = Inl StatisticsError"
  by (simp add: python_def statistics_mean_Nil)

lemma check_if_anomaly_try_building:
  "\<not> is_model_complete u \<Longrightarrow>
   check_if_anomaly_try rt u v = (u\<lparr>model_data := model_data u @ [v]\<rparr>, None)"
  by (simp add: check_if_anomaly_try_def)

lemma check_if_anomaly_building:
  "\<not> is_model_complete u \<Longrightarrow>
   check_if_anomaly rt u v = (u\<lparr>model_data := model_data u @ [v]\<rparr>, [])"
  by (simp add: check_if_anomaly_def check_if_anomaly_try_building)

lemma fst_check_if_anomaly: "fst (check_if_anomaly rt u v) = fst (check_if_anomaly_try rt u v)"
  by (simp add: check_if_anomaly_def split: prod.splits option.splits)

lemma check_if_anomaly_try_frame:
  "check_if_anomaly_try rt u v = (u', e) \<Longrightarrow>
   model_size u' = model_size u \<and> anomaly_list u' = anomaly_list u
   \<and> anomaly_list_size u' = anomaly_list_size u \<and> anomaly_ratio u' = anomaly_ratio u
   \<and> z_score_thresh u' = z_score_thresh u \<and> name u' = name u"
  by (auto simp: check_if_anomaly_try_def Let_def split: sum.splits list.splits if_splits)

lemma check_if_anomaly_try_length:
  "is_model_complete u \<Longrightarrow> check_if_anomaly_try rt u v = (u', e) \<Longrightarrow>
   length (model_data u') = length (model_data u)"
  by (auto simp: check_if_anomaly_try_def Let_def split: sum.splits list.splits if_splits)

text \<open>The three ways a call on a complete model ends.\<close>

lemma check_if_anomaly_try_anomalous:
  "is_model_complete u \<Longrightarrow> check_if_anomaly_try rt u v = (u', None) \<Longrightarrow>
   z_score_thresh u' < \<bar>z_score u'\<bar> \<Longrightarrow> model_data u' = model_data u \<and> anomaly u' = 1"
  by (auto simp: check_if_anomaly_try_def Let_def split: sum.splits list.splits if_splits)

lemma check_if_anomaly_try_accepted:
  "is_model_complete u \<Longrightarrow> check_if_anomaly_try rt u v = (u', None) \<Longrightarrow>
   \<not> z_score_thresh u' < \<bar>z_score u'\<bar> \<Longrightarrow>
   model_data u \<noteq> [] \<and> model_data u' = tl (model_data u) @ [v] \<and> anomaly u' = 0"
  by (auto simp: check_if_anomaly_try_def Let_def split: sum.splits list.splits if_splits)

lemma check_if_anomaly_try_failed_window:
  "check_if_anomaly_try rt u v = (u', Some e) \<Longrightarrow> model_data u' = model_data u"
  by (auto simp: check_if_anomaly_try_def Let_def split: sum.splits list.splits if_splits)

lemma check_if_anomaly_try_script_anomalous:
  "is_model_complete u \<Longrightarrow> check_if_anomaly_try_script rt u v = (u', None) \<Longrightarrow>
   z_score_thresh u' < \<bar>z_score u'\<bar> \<Longrightarrow> model_data u' = model_data u \<and> anomaly u' = 1"
  by (auto simp: check_if_anomaly_try_script_def Let_def split: sum.splits list.splits if_splits)

lemma check_if_anomaly_model_size:
  "model_size (fst (check_if_anomaly rt u v)) = model_size u"
  using check_if_anomaly_try_frame
    [of rt u v "fst (check_if_anomaly_try rt u v)" "snd (check_if_anomaly_try rt u v)"]
  by (simp add: fst_check_if_anomaly)

lemma check_if_anomaly_length_full:
  assumes "int (length (model_data u)) = model_size u"
  shows "int (length (model_data (fst (check_if_anomaly rt u v)))) = model_size u"
proof -
  have "is_model_complete u" using assms by (simp add: is_model_complete_def)
  then have "length (model_data (fst (check_if_anomaly_try rt u v))) = length (model_data u)"
    using check_if_anomaly_try_length
      [of u rt v "fst (check_if_anomaly_try rt u v)" "snd (check_if_anomaly_try rt u v)"]
    by simp
  then show ?thesis using assms by (simp add: fst_check_if_anomaly)
qed

lemma check_if_anomaly_length_le:
  assumes "int (length (model_data u)) \<le> model_size u"
  shows "int (length (model_data (fst (check_if_anomaly rt u v)))) \<le> model_size u"
proof (cases "int (length (model_data u)) = model_size u")
  case True
  then show ?thesis using check_if_anomaly_length_full [of u rt v] by simp
next
  case False
  then have "\<not> is_model_complete u" by (simp add: is_model_complete_def)
  then show ?thesis using assms False by (simp add: check_if_anomaly_building)
qed

lemma check_trace_length_le:
  "int (length (model_data u)) \<le> model_size u \<Longrightarrow>
   list_all (\<lambda>r. int (length (model_data (fst r))) \<le> model_size u) (check_trace rt u vs)"
proof (induction vs arbitrary: u)
  case Nil
  then show ?case by simp
next
  case (Cons v vs)
  let ?u = "fst (check_if_anomaly rt u v)"
  have le: "int (length (model_data ?u)) \<le> model_size ?u"
    using check_if_anomaly_length_le [OF Cons.prems, of rt v]
    by (simp add: check_if_anomaly_model_size)
  from Cons.IH [OF le] le show ?case by (simp add: Let_def check_if_anomaly_model_size)
qed

lemma check_trace_length_full:
  "int (length (model_data u)) = model_size u \<Longrightarrow>
   list_all (\<lambda>r. int (length (model_data (fst r))) = model_size u) (check_trace rt u vs)"
proof (induction vs arbitrary: u)
  case Nil
  then show ?case by simp
next
  case (Cons v vs)
  let ?u = "fst (check_if_anomaly rt u v)"
  have eq: "int (length (model_data ?u)) = model_size ?u"
    using check_if_anomaly_length_full [OF Cons.prems, of rt v]
    by (simp add: check_if_anomaly_model_size)
  from Cons.IH [OF eq] eq show ?case by (simp add: Let_def check_if_anomaly_model_size)
qed

text \<open>The definitions a call on a concrete unit is evaluated with.\<close>

lemmas check_unfold =
  check_if_anomaly_def check_if_anomaly_try_def
  check_if_anomaly_script_def check_if_anomaly_try_script_def
  new_detector_def is_model_complete_def python_def quotient_def
  statistics_mean_def statistics_stdev_def
  py_abs_def py_div_def py_round_def Let_def

section \<open>The size of the window\<close>

text \<open>
  C5. A capacity is a non-negative integer. The window of a new unit is not longer than the
  capacity, and no call of \<open>check_if_anomaly\<close> makes it so: neither one call nor any
  sequence of calls. A call on a unit whose window has exactly the capacity's length
  leaves that length, and so does every later call. For such a call ends in one of three
  ways: it classifies the value as an anomaly and leaves the window untouched; it
  accepts the value, and the window is the old one without its oldest element and with
  the value appended; or it fails, and the window is untouched.
\<close>

theorem window_length_invariant:
  "(0 \<le> cap \<longrightarrow>
      int (length (model_data (new_detector nm cap K))) \<le> model_size (new_detector nm cap K))
   \<and> model_size (fst (check_if_anomaly rt u v)) = model_size u
   \<and> (int (length (model_data u)) \<le> model_size u \<longrightarrow>
        int (length (model_data (fst (check_if_anomaly rt u v)))) \<le> model_size u)
   \<and> (int (length (model_data u)) = model_size u \<longrightarrow>
        int (length (model_data (fst (check_if_anomaly rt u v)))) = model_size u)
   \<and> (0 \<le> cap \<longrightarrow>
        list_all (\<lambda>r. int (length (model_data (fst r))) \<le> cap)
          (check_trace rt (new_detector nm cap K) vs))
   \<and> (int (length (model_data u)) = model_size u \<longrightarrow>
        list_all (\<lambda>r. int (length (model_data (fst r))) = model_size u) (check_trace rt u vs))
   \<and> (is_model_complete u \<and> check_if_anomaly_try rt u v = (u', None)
        \<and> z_score_thresh u' < \<bar>z_score u'\<bar> \<longrightarrow>
          check_if_anomaly rt u v = (u', []) \<and> anomaly u' = 1
          \<and> model_data u' = model_data u)
   \<and> (is_model_complete u \<and> check_if_anomaly_try rt u v = (u', None)
        \<and> \<not> z_score_thresh u' < \<bar>z_score u'\<bar> \<longrightarrow>
          check_if_anomaly rt u v = (u', []) \<and> anomaly u' = 0
          \<and> model_data u \<noteq> [] \<and> model_data u' = tl (model_data u) @ [v])
   \<and> (check_if_anomaly_try rt u v = (u', Some e) \<longrightarrow>
          check_if_anomaly rt u v = (u', [Anomaly_of_model_failed (name u) e])
          \<and> model_data u' = model_data u)"
proof -
  have init: "0 \<le> cap \<Longrightarrow>
      int (length (model_data (new_detector nm cap K))) \<le> model_size (new_detector nm cap K)"
    by (simp add: new_detector_def)
  have run: "0 \<le> cap \<Longrightarrow>
      list_all (\<lambda>r. int (length (model_data (fst r))) \<le> cap)
        (check_trace rt (new_detector nm cap K) vs)"
    using check_trace_length_le [of "new_detector nm cap K" rt vs] by (simp add: new_detector_def)
  have anomalous: "is_model_complete u \<and> check_if_anomaly_try rt u v = (u', None)
        \<and> z_score_thresh u' < \<bar>z_score u'\<bar> \<longrightarrow>
          check_if_anomaly rt u v = (u', []) \<and> anomaly u' = 1
          \<and> model_data u' = model_data u"
    using check_if_anomaly_try_anomalous [of u rt v u'] by (simp add: check_if_anomaly_def)
  have accepted: "is_model_complete u \<and> check_if_anomaly_try rt u v = (u', None)
        \<and> \<not> z_score_thresh u' < \<bar>z_score u'\<bar> \<longrightarrow>
          check_if_anomaly rt u v = (u', []) \<and> anomaly u' = 0
          \<and> model_data u \<noteq> [] \<and> model_data u' = tl (model_data u) @ [v]"
    using check_if_anomaly_try_accepted [of u rt v u'] by (simp add: check_if_anomaly_def)
  have failed: "check_if_anomaly_try rt u v = (u', Some e) \<longrightarrow>
          check_if_anomaly rt u v = (u', [Anomaly_of_model_failed (name u) e])
          \<and> model_data u' = model_data u"
    using check_if_anomaly_try_failed_window [of rt u v u' e]
      check_if_anomaly_try_frame [of rt u v u' "Some e"]
    by (simp add: check_if_anomaly_def)
  show ?thesis
    using init run check_if_anomaly_model_size [of rt u v] check_if_anomaly_length_le [of u rt v]
      check_if_anomaly_length_full [of u rt v] check_trace_length_full [of u rt vs]
      anomalous accepted failed
    by blast
qed

theorem window_length_invariant_witness:
  "(0::int) \<le> 3
   \<and> is_model_complete
       ((new_detector ''sensor'' 3 3)\<lparr>model_data := [PyNum 1, PyNum 2, PyNum 3]\<rparr>)
   \<and> check_if_anomaly_try (python (\<lambda>n x. True))
       ((new_detector ''sensor'' 3 3)\<lparr>model_data := [PyNum 1, PyNum 2, PyNum 3]\<rparr>) (PyNum 2)
     = ((new_detector ''sensor'' 3 3)
          \<lparr>model_data := [PyNum 2, PyNum 3, PyNum 2], model_avg := 2, model_std_dev := 1\<rparr>,
        None)
   \<and> list_all (\<lambda>r. int (length (model_data (fst r))) \<le> 3)
        (check_trace (python (\<lambda>n x. True)) (new_detector ''sensor'' 3 3)
           [PyNum 1, PyNum 2, PyNum 3, PyNum 2, PyStr ''x''])
   \<and> map (\<lambda>r. model_data (fst r))
        (check_trace (python (\<lambda>n x. True)) (new_detector ''sensor'' 3 3)
           [PyNum 1, PyNum 2, PyNum 3, PyNum 2, PyStr ''x''])
      = [[PyNum 1], [PyNum 1, PyNum 2], [PyNum 1, PyNum 2, PyNum 3],
         [PyNum 2, PyNum 3, PyNum 2], [PyNum 2, PyNum 3, PyNum 2]]"
proof -
  let ?rt = "python (\<lambda>n x. True)"
  let ?u = "(new_detector ''sensor'' 3 3)\<lparr>model_data := [PyNum 1, PyNum 2, PyNum 3]\<rparr>"
  let ?u' = "(new_detector ''sensor'' 3 3)
          \<lparr>model_data := [PyNum 2, PyNum 3, PyNum 2], model_avg := 2, model_std_dev := 1\<rparr>"
  let ?vs = "[PyNum 1, PyNum 2, PyNum 3, PyNum 2, PyStr ''x'']"
  have complete: "is_model_complete ?u"
    by (simp add: is_model_complete_def new_detector_def)
  have call: "check_if_anomaly_try ?rt ?u (PyNum 2) = (?u', None)"
    by (simp add: check_unfold)
  have windows: "map (\<lambda>r. model_data (fst r)) (check_trace ?rt (new_detector ''sensor'' 3 3) ?vs)
      = [[PyNum 1], [PyNum 1, PyNum 2], [PyNum 1, PyNum 2, PyNum 3],
         [PyNum 2, PyNum 3, PyNum 2], [PyNum 2, PyNum 3, PyNum 2]]"
    by (simp add: check_unfold)
  have "list_all (\<lambda>r. int (length (model_data (fst r))) \<le> 3)
        (check_trace ?rt (new_detector ''sensor'' 3 3) ?vs)"
    using window_length_invariant [of 3 "''sensor''" 3 ?rt ?u "PyNum 2" ?vs ?u'] by simp
  moreover have "(0::int) \<le> 3" by simp
  ultimately show ?thesis using complete call windows by blast
qed

section \<open>The threshold setter\<close>

text \<open>
  C7. Setting the z-score threshold to 0 leaves the threshold at 2.0, and the setter logs
  the message that the threshold must be above zero (with \<open>logger.error\<close>). Every
  other value, a negative one too, is stored as it is and nothing is logged. So no call
  of the setter leaves the threshold at 0.
\<close>

theorem z_score_thresh_setter_rejects_zero:
  "set_z_score_thresh u 0 = (u\<lparr>z_score_thresh := 2\<rparr>, [Threshold_not_above_zero])
   \<and> (t \<noteq> 0 \<longrightarrow> set_z_score_thresh u t = (u\<lparr>z_score_thresh := t\<rparr>, []))
   \<and> z_score_thresh (fst (set_z_score_thresh u t)) \<noteq> 0"
  by (simp add: set_z_score_thresh_def)

theorem z_score_thresh_setter_witness:
  "(- 3 / 2 :: real) \<noteq> 0
   \<and> set_z_score_thresh (new_detector ''sensor'' 25 25) (- 3 / 2)
       = ((new_detector ''sensor'' 25 25)\<lparr>z_score_thresh := - 3 / 2\<rparr>, [])
   \<and> z_score_thresh (fst (set_z_score_thresh (new_detector ''sensor'' 25 25) (- 3 / 2))) = - 3 / 2"
  using z_score_thresh_setter_rejects_zero [of "new_detector ''sensor'' 25 25" "- 3 / 2"]
  by simp

section \<open>Building the model\<close>

lemma check_trace_building:
  "int (length (model_data u)) + int (length vs) \<le> model_size u \<Longrightarrow>
   check_trace rt u vs
     = map (\<lambda>k. (u\<lparr>model_data := model_data u @ take (Suc k) vs\<rparr>, [])) [0..<length vs]"
proof (induction vs arbitrary: u)
  case Nil
  then show ?case by simp
next
  case (Cons v vs)
  let ?u = "u\<lparr>model_data := model_data u @ [v]\<rparr>"
  have incomplete: "\<not> is_model_complete u"
    using Cons.prems by (simp add: is_model_complete_def)
  have "int (length (model_data ?u)) + int (length vs) \<le> model_size ?u"
    using Cons.prems by simp
  from Cons.IH [OF this] incomplete show ?case
    by (simp add: check_if_anomaly_building map_upt_Suc del: upt_Suc)
qed

text \<open>
  C8. On a new unit of capacity \<open>N\<close>, each of the first \<open>N\<close> calls of
  \<open>check_if_anomaly\<close> finds the model incomplete and only appends its value to the
  window, whatever the value is: after call \<open>k + 1\<close> the unit is the new unit with
  the first \<open>k + 1\<close> values as its window, with no anomaly flag, z-score, mean or
  deviation set and nothing logged. After \<open>N\<close> calls the model is complete, so that
  a value is classified from call \<open>N + 1\<close> on and not before.
\<close>

theorem first_calls_build_model:
  assumes "int (length vs) \<le> N"
  shows "check_trace rt (new_detector nm N K) vs
           = map (\<lambda>k. ((new_detector nm N K)\<lparr>model_data := take (Suc k) vs\<rparr>, []))
               [0..<length vs]
         \<and> (\<forall>k<length vs.
               \<not> is_model_complete ((new_detector nm N K)\<lparr>model_data := take k vs\<rparr>))
         \<and> (int (length vs) = N \<longrightarrow>
               is_model_complete ((new_detector nm N K)\<lparr>model_data := vs\<rparr>))"
proof -
  have "check_trace rt (new_detector nm N K) vs
          = map (\<lambda>k. ((new_detector nm N K)\<lparr>model_data :=
                         model_data (new_detector nm N K) @ take (Suc k) vs\<rparr>, []))
              [0..<length vs]"
    using assms by (intro check_trace_building) (simp add: new_detector_def)
  moreover have "model_data (new_detector nm N K) = []"
    by (simp add: new_detector_def)
  moreover have "\<forall>k<length vs.
      \<not> is_model_complete ((new_detector nm N K)\<lparr>model_data := take k vs\<rparr>)"
    using assms by (auto simp: is_model_complete_def new_detector_def)
  moreover have "int (length vs) = N \<longrightarrow>
      is_model_complete ((new_detector nm N K)\<lparr>model_data := vs\<rparr>)"
    by (simp add: is_model_complete_def new_detector_def)
  ultimately show ?thesis by simp
qed

theorem first_calls_build_model_witness:
  "int (length [PyNum 4, PyStr ''n/a'', PyNum (- 1000)]) \<le> 3
   \<and> check_trace (python (\<lambda>n x. True)) (new_detector ''sensor'' 3 3)
         [PyNum 4, PyStr ''n/a'', PyNum (- 1000)]
       = [((new_detector ''sensor'' 3 3)\<lparr>model_data := [PyNum 4]\<rparr>, []),
          ((new_detector ''sensor'' 3 3)\<lparr>model_data := [PyNum 4, PyStr ''n/a'']\<rparr>, []),
          ((new_detector ''sensor'' 3 3)
             \<lparr>model_data := [PyNum 4, PyStr ''n/a'', PyNum (- 1000)]\<rparr>, [])]"
  using first_calls_build_model
    [of "[PyNum 4, PyStr ''n/a'', PyNum (- 1000)]" 3 "python (\<lambda>n x. True)" "''sensor''" 3]
  by (simp add: upt_rec)

section \<open>Anomalous values and the window\<close>

text \<open>
  C4. With the full window \<open>[1, 1, 1]\<close>, capacity 3 and threshold 2.0, the value 10
  gives mean 1, a deviation of 0 that is replaced by 0.001, the z-score
  \<open>(10 - 1) / 0.001 = 9000\<close> and the anomaly flag 1, and the window stays
  \<open>[1, 1, 1]\<close>; so in \<open>helper.py\<close> and so in the scripts' variant of the method. In
  general, when the model is complete and the call classifies the value with a z-score
  beyond the threshold, it sets the anomaly flag and leaves the window as it was.
\<close>

theorem anomalous_value_leaves_window:
  "check_if_anomaly (python up)
       ((new_detector nm 3 K)\<lparr>model_data := [PyNum 1, PyNum 1, PyNum 1], z_score_thresh := 2\<rparr>)
       (PyNum 10)
     = ((new_detector nm 3 K)
          \<lparr>model_data := [PyNum 1, PyNum 1, PyNum 1], z_score_thresh := 2,
            model_avg := 1, model_std_dev := 1 / 1000, z_score := 9000, anomaly := 1\<rparr>, [])
   \<and> check_if_anomaly_script (python up)
       ((new_detector nm 3 K)\<lparr>model_data := [PyNum 1, PyNum 1, PyNum 1], z_score_thresh := 2\<rparr>)
       (PyNum 10)
     = ((new_detector nm 3 K)
          \<lparr>model_data := [PyNum 1, PyNum 1, PyNum 1], z_score_thresh := 2,
            model_avg := 1, model_std_dev := 1 / 1000, z_score := 9000, anomaly := 1\<rparr>, [])
   \<and> (is_model_complete u \<and> check_if_anomaly_try rt u v = (u', None)
        \<and> z_score_thresh u' < \<bar>z_score u'\<bar> \<longrightarrow>
          check_if_anomaly rt u v = (u', []) \<and> model_data u' = model_data u \<and> anomaly u' = 1)
   \<and> (is_model_complete u \<and> check_if_anomaly_try_script rt u v = (u', None)
        \<and> z_score_thresh u' < \<bar>z_score u'\<bar> \<longrightarrow>
          check_if_anomaly_script rt u v = (u', []) \<and> model_data u' = model_data u
          \<and> anomaly u' = 1)"
proof -
  have helper: "check_if_anomaly (python up)
       ((new_detector nm 3 K)\<lparr>model_data := [PyNum 1, PyNum 1, PyNum 1], z_score_thresh := 2\<rparr>)
       (PyNum 10)
     = ((new_detector nm 3 K)
          \<lparr>model_data := [PyNum 1, PyNum 1, PyNum 1], z_score_thresh := 2,
            model_avg := 1, model_std_dev := 1 / 1000, z_score := 9000, anomaly := 1\<rparr>, [])"
    by (simp add: check_unfold)
  have script: "check_if_anomaly_script (python up)
       ((new_detector nm 3 K)\<lparr>model_data := [PyNum 1, PyNum 1, PyNum 1], z_score_thresh := 2\<rparr>)
       (PyNum 10)
     = ((new_detector nm 3 K)
          \<lparr>model_data := [PyNum 1, PyNum 1, PyNum 1], z_score_thresh := 2,
            model_avg := 1, model_std_dev := 1 / 1000, z_score := 9000, anomaly := 1\<rparr>, [])"
    by (simp add: check_unfold)
  have g1: "is_model_complete u \<and> check_if_anomaly_try rt u v = (u', None)
        \<and> z_score_thresh u' < \<bar>z_score u'\<bar> \<longrightarrow>
          check_if_anomaly rt u v = (u', []) \<and> model_data u' = model_data u \<and> anomaly u' = 1"
    using check_if_anomaly_try_anomalous [of u rt v u'] by (simp add: check_if_anomaly_def)
  have g2: "is_model_complete u \<and> check_if_anomaly_try_script rt u v = (u', None)
        \<and> z_score_thresh u' < \<bar>z_score u'\<bar> \<longrightarrow>
          check_if_anomaly_script rt u v = (u', []) \<and> model_data u' = model_data u
          \<and> anomaly u' = 1"
    using check_if_anomaly_try_script_anomalous [of u rt v u']
    by (simp add: check_if_anomaly_script_def)
  from helper script g1 g2 show ?thesis by blast
qed

theorem anomalous_value_leaves_window_witness:
  "is_model_complete
     ((new_detector ''sensor'' 3 3)\<lparr>model_data := [PyNum 2, PyNum 4, PyNum 6], z_score_thresh := 2\<rparr>)
   \<and> check_if_anomaly_try (python (\<lambda>n x. True))
        ((new_detector ''sensor'' 3 3)\<lparr>model_data := [PyNum 2, PyNum 4, PyNum 6], z_score_thresh := 2\<rparr>)
        (PyNum (- 10))
      = ((new_detector ''sensor'' 3 3)
          \<lparr>model_data := [PyNum 2, PyNum 4, PyNum 6], z_score_thresh := 2,
            model_avg := 4, model_std_dev := 2, z_score := 3, anomaly := 1\<rparr>, None)
   \<and> z_score_thresh ((new_detector ''sensor'' 3 3)
          \<lparr>model_data := [PyNum 2, PyNum 4, PyNum 6], z_score_thresh := 2,
            model_avg := 4, model_std_dev := 2, z_score := 3, anomaly := 1\<rparr>)
       < \<bar>z_score ((new_detector ''sensor'' 3 3)
          \<lparr>model_data := [PyNum 2, PyNum 4, PyNum 6], z_score_thresh := 2,
            model_avg := 4, model_std_dev := 2, z_score := 3, anomaly := 1\<rparr>)\<bar>
   \<and> model_data (fst (check_if_anomaly (python (\<lambda>n x. True))
        ((new_detector ''sensor'' 3 3)\<lparr>model_data := [PyNum 2, PyNum 4, PyNum 6], z_score_thresh := 2\<rparr>)
        (PyNum (- 10)))) = [PyNum 2, PyNum 4, PyNum 6]"
proof -
  let ?rt = "python (\<lambda>n x. True)"
  let ?u = "(new_detector ''sensor'' 3 3)
      \<lparr>model_data := [PyNum 2, PyNum 4, PyNum 6], z_score_thresh := 2\<rparr>"
  let ?u' = "(new_detector ''sensor'' 3 3)
          \<lparr>model_data := [PyNum 2, PyNum 4, PyNum 6], z_score_thresh := 2,
            model_avg := 4, model_std_dev := 2, z_score := 3, anomaly := 1\<rparr>"
  have complete: "is_model_complete ?u"
    by (simp add: is_model_complete_def new_detector_def)
  have call: "check_if_anomaly_try ?rt ?u (PyNum (- 10)) = (?u', None)"
    by (simp add: check_unfold)
  have beyond: "z_score_thresh ?u' < \<bar>z_score ?u'\<bar>"
    by simp
  have "check_if_anomaly ?rt ?u (PyNum (- 10)) = (?u', [])
      \<and> model_data ?u' = model_data ?u \<and> anomaly ?u' = 1"
    using anomalous_value_leaves_window [of "\<lambda>n x. True" "''sensor''" 3 ?u ?rt "PyNum (- 10)" ?u']
      complete call beyond
    by blast
  then have "model_data (fst (check_if_anomaly ?rt ?u (PyNum (- 10))))
      = [PyNum 2, PyNum 4, PyNum 6]"
    by simp
  with complete call beyond show ?thesis by blast
qed

section \<open>A call that fails\<close>

lemma check_if_anomaly_try_failure:
  assumes "rt_mean rt [] = Inl StatisticsError"
    and "check_if_anomaly_try rt u v = (u', Some e)"
  shows "is_model_complete u"
    and "\<forall>e'. rt_mean rt (model_data u) = Inl e' \<longrightarrow> e = e' \<and> u' = u"
    and "\<forall>m e'. rt_mean rt (model_data u) = Inr m \<and> rt_stdev rt (model_data u) = Inl e' \<longrightarrow>
          e = e' \<and> u' = u\<lparr>model_avg := \<bar>m\<bar>\<rparr>"
    and "\<forall>m s. rt_mean rt (model_data u) = Inr m \<and> rt_stdev rt (model_data u) = Inr s \<longrightarrow>
          rt_quotient rt v (\<bar>m\<bar>) (if s = 0 then 1 / 1000 else \<bar>s\<bar>) = Inl e
          \<and> u' = u\<lparr>model_avg := \<bar>m\<bar>,
                    model_std_dev := (if s = 0 then 1 / 1000 else \<bar>s\<bar>)\<rparr>"
  using assms
  by (auto simp: check_if_anomaly_try_def Let_def split: sum.splits list.splits if_splits)

lemma check_if_anomaly_try_script_failure:
  assumes "rt_mean rt [] = Inl StatisticsError"
    and "check_if_anomaly_try_script rt u v = (u', Some e)"
  shows "is_model_complete u"
    and "\<forall>e'. rt_mean rt (model_data u) = Inl e' \<longrightarrow> e = e' \<and> u' = u"
    and "\<forall>m e'. rt_mean rt (model_data u) = Inr m \<and> rt_stdev rt (model_data u) = Inl e' \<longrightarrow>
          e = e' \<and> u' = u\<lparr>model_avg := rt_round rt 3 \<bar>m\<bar>\<rparr>"
    and "\<forall>m s. rt_mean rt (model_data u) = Inr m \<and> rt_stdev rt (model_data u) = Inr s \<longrightarrow>
          rt_quotient rt v (rt_round rt 3 \<bar>m\<bar>) (if s = 0 then 1 / 1000 else \<bar>s\<bar>) = Inl e
          \<and> u' = u\<lparr>model_avg := rt_round rt 3 \<bar>m\<bar>,
                    model_std_dev := (if s = 0 then 1 / 1000 else \<bar>s\<bar>)\<rparr>"
  using assms
  by (auto simp: check_if_anomaly_try_script_def Let_def split: sum.splits list.splits if_splits)

lemma check_if_anomaly_try_failure_kept:
  assumes "rt_mean rt [] = Inl StatisticsError"
    and "check_if_anomaly_try rt u v = (u', Some e)"
  shows "u' = u\<lparr>model_avg := model_avg u', model_std_dev := model_std_dev u'\<rparr>"
  using assms
  by (auto simp: check_if_anomaly_try_def Let_def split: sum.splits list.splits if_splits)

lemma check_if_anomaly_try_script_failure_kept:
  assumes "rt_mean rt [] = Inl StatisticsError"
    and "check_if_anomaly_try_script rt u v = (u', Some e)"
  shows "u' = u\<lparr>model_avg := model_avg u', model_std_dev := model_std_dev u'\<rparr>"
  using assms
  by (auto simp: check_if_anomaly_try_script_def Let_def split: sum.splits list.splits if_splits)

lemma record_fields_kept:
  "u' = u\<lparr>model_avg := a, model_std_dev := d\<rparr> \<Longrightarrow>
   model_data u' = model_data u \<and> z_score u' = z_score u \<and> anomaly u' = anomaly u
   \<and> name u' = name u"
  by simp

text \<open>
  C3, as the code has it. \<open>statistics.mean\<close> raises on empty data. When the computation
  inside \<open>check_if_anomaly\<close> raises, whatever the exception, it is caught and logged
  with the unit's name, and the method returns. The model was complete, and the window,
  the z-score and the anomaly flag are as before the call. The unit after the call is
  the unit before it but for the statistics the call had assigned when it failed: when
  \<open>statistics.mean\<close> raises, nothing has changed; when \<open>statistics.stdev\<close> raises,
  \<open>model_avg\<close> holds the absolute mean of the window and nothing else has changed; when
  both return, the failure is that of the z-score expression (\<open>abs\<close> of a
  non-numeric value, for one), \<open>model_avg\<close> holds the absolute mean and \<open>model_std_dev\<close>
  the absolute deviation of the window (0.001 for 0), and nothing else has changed. So
  in \<open>helper.py\<close> and so in the scripts' variant, where the mean is rounded to three
  decimals.
\<close>

theorem failed_check_keeps_window_and_flags:
  assumes "rt_mean rt [] = Inl StatisticsError"
  shows "(check_if_anomaly_try rt u v = (u', Some e) \<longrightarrow>
      check_if_anomaly rt u v = (u', [Anomaly_of_model_failed (name u) e])
      \<and> is_model_complete u
      \<and> model_data u' = model_data u \<and> z_score u' = z_score u \<and> anomaly u' = anomaly u
      \<and> (\<forall>e'. rt_mean rt (model_data u) = Inl e' \<longrightarrow> e = e' \<and> u' = u)
      \<and> (\<forall>m e'. rt_mean rt (model_data u) = Inr m
             \<and> rt_stdev rt (model_data u) = Inl e' \<longrightarrow>
               e = e' \<and> u' = u\<lparr>model_avg := \<bar>m\<bar>\<rparr>)
      \<and> (\<forall>m s. rt_mean rt (model_data u) = Inr m
             \<and> rt_stdev rt (model_data u) = Inr s \<longrightarrow>
               rt_quotient rt v \<bar>m\<bar> (if s = 0 then 1 / 1000 else \<bar>s\<bar>) = Inl e
               \<and> u' = u\<lparr>model_avg := \<bar>m\<bar>,
                         model_std_dev := (if s = 0 then 1 / 1000 else \<bar>s\<bar>)\<rparr>))
   \<and> (check_if_anomaly_try_script rt u v = (u', Some e) \<longrightarrow>
      check_if_anomaly_script rt u v = (u', [Anomaly_of_model_failed (name u) e])
      \<and> is_model_complete u
      \<and> model_data u' = model_data u \<and> z_score u' = z_score u \<and> anomaly u' = anomaly u
      \<and> (\<forall>e'. rt_mean rt (model_data u) = Inl e' \<longrightarrow> e = e' \<and> u' = u)
      \<and> (\<forall>m e'. rt_mean rt (model_data u) = Inr m
             \<and> rt_stdev rt (model_data u) = Inl e' \<longrightarrow>
               e = e' \<and> u' = u\<lparr>model_avg := rt_round rt 3 \<bar>m\<bar>\<rparr>)
      \<and> (\<forall>m s. rt_mean rt (model_data u) = Inr m
             \<and> rt_stdev rt (model_data u) = Inr s \<longrightarrow>
               rt_quotient rt v (rt_round rt 3 \<bar>m\<bar>) (if s = 0 then 1 / 1000 else \<bar>s\<bar>)
                 = Inl e
               \<and> u' = u\<lparr>model_avg := rt_round rt 3 \<bar>m\<bar>,
                         model_std_dev := (if s = 0 then 1 / 1000 else \<bar>s\<bar>)\<rparr>))"
proof (intro conjI impI)
  assume f: "check_if_anomaly_try rt u v = (u', Some e)"
  note facts = check_if_anomaly_try_failure [OF assms f]
  note fields = record_fields_kept [OF check_if_anomaly_try_failure_kept [OF assms f]]
  show "check_if_anomaly rt u v = (u', [Anomaly_of_model_failed (name u) e])"
    using f fields by (simp add: check_if_anomaly_def)
  show "is_model_complete u" by (rule facts(1))
  show "model_data u' = model_data u" "z_score u' = z_score u" "anomaly u' = anomaly u"
    using fields by simp_all
  show "\<forall>e'. rt_mean rt (model_data u) = Inl e' \<longrightarrow> e = e' \<and> u' = u"
    by (rule facts(2))
  show "\<forall>m e'. rt_mean rt (model_data u) = Inr m \<and> rt_stdev rt (model_data u) = Inl e' \<longrightarrow>
          e = e' \<and> u' = u\<lparr>model_avg := \<bar>m\<bar>\<rparr>"
    by (rule facts(3))
  show "\<forall>m s. rt_mean rt (model_data u) = Inr m \<and> rt_stdev rt (model_data u) = Inr s \<longrightarrow>
          rt_quotient rt v \<bar>m\<bar> (if s = 0 then 1 / 1000 else \<bar>s\<bar>) = Inl e
          \<and> u' = u\<lparr>model_avg := \<bar>m\<bar>,
                    model_std_dev := (if s = 0 then 1 / 1000 else \<bar>s\<bar>)\<rparr>"
    by (rule facts(4))
next
  assume f: "check_if_anomaly_try_script rt u v = (u', Some e)"
  note facts = check_if_anomaly_try_script_failure [OF assms f]
  note fields = record_fields_kept [OF check_if_anomaly_try_script_failure_kept [OF assms f]]
  show "check_if_anomaly_script rt u v = (u', [Anomaly_of_model_failed (name u) e])"
    using f fields by (simp add: check_if_anomaly_script_def)
  show "is_model_complete u" by (rule facts(1))
  show "model_data u' = model_data u" "z_score u' = z_score u" "anomaly u' = anomaly u"
    using fields by simp_all
  show "\<forall>e'. rt_mean rt (model_data u) = Inl e' \<longrightarrow> e = e' \<and> u' = u"
    by (rule facts(2))
  show "\<forall>m e'. rt_mean rt (model_data u) = Inr m \<and> rt_stdev rt (model_data u) = Inl e' \<longrightarrow>
          e = e' \<and> u' = u\<lparr>model_avg := rt_round rt 3 \<bar>m\<bar>\<rparr>"
    by (rule facts(3))
  show "\<forall>m s. rt_mean rt (model_data u) = Inr m \<and> rt_stdev rt (model_data u) = Inr s \<longrightarrow>
          rt_quotient rt v (rt_round rt 3 \<bar>m\<bar>) (if s = 0 then 1 / 1000 else \<bar>s\<bar>) = Inl e
          \<and> u' = u\<lparr>model_avg := rt_round rt 3 \<bar>m\<bar>,
                    model_std_dev := (if s = 0 then 1 / 1000 else \<bar>s\<bar>)\<rparr>"
    by (rule facts(4))
qed

theorem failed_check_keeps_window_and_flags_witness:
  "rt_mean (python (\<lambda>n x. True)) [] = Inl StatisticsError
   \<and> check_if_anomaly_try (python (\<lambda>n x. True))
       ((new_detector ''sensor'' 2 3)\<lparr>model_data := [PyNum 3, PyNum 5], anomaly := 1,
          z_score := 7\<rparr>)
       (PyStr ''abc'')
     = ((new_detector ''sensor'' 2 3)\<lparr>model_data := [PyNum 3, PyNum 5], anomaly := 1,
          z_score := 7, model_avg := 4, model_std_dev := sqrt 2\<rparr>, Some TypeError)
   \<and> check_if_anomaly (python (\<lambda>n x. True))
       ((new_detector ''sensor'' 2 3)\<lparr>model_data := [PyNum 3, PyNum 5], anomaly := 1,
          z_score := 7\<rparr>)
       (PyStr ''abc'')
     = ((new_detector ''sensor'' 2 3)\<lparr>model_data := [PyNum 3, PyNum 5], anomaly := 1,
          z_score := 7, model_avg := 4, model_std_dev := sqrt 2\<rparr>,
        [Anomaly_of_model_failed ''sensor'' TypeError])
   \<and> check_if_anomaly_try (python (\<lambda>n x. True))
       ((new_detector ''single'' 1 3)\<lparr>model_data := [PyNum (- 7)]\<rparr>) (PyNum 8)
     = ((new_detector ''single'' 1 3)\<lparr>model_data := [PyNum (- 7)], model_avg := 7\<rparr>,
        Some StatisticsError)
   \<and> check_if_anomaly (python (\<lambda>n x. True))
       ((new_detector ''single'' 1 3)\<lparr>model_data := [PyNum (- 7)]\<rparr>) (PyNum 8)
     = ((new_detector ''single'' 1 3)\<lparr>model_data := [PyNum (- 7)], model_avg := 7\<rparr>,
        [Anomaly_of_model_failed ''single'' StatisticsError])"
proof -
  let ?rt = "python (\<lambda>n x. True)"
  let ?u = "(new_detector ''sensor'' 2 3)\<lparr>model_data := [PyNum 3, PyNum 5], anomaly := 1,
          z_score := 7\<rparr>"
  let ?u' = "(new_detector ''sensor'' 2 3)\<lparr>model_data := [PyNum 3, PyNum 5], anomaly := 1,
          z_score := 7, model_avg := 4, model_std_dev := sqrt 2\<rparr>"
  let ?w = "(new_detector ''single'' 1 3)\<lparr>model_data := [PyNum (- 7)]\<rparr>"
  let ?w' = "(new_detector ''single'' 1 3)\<lparr>model_data := [PyNum (- 7)], model_avg := 7\<rparr>"
  have empty: "rt_mean ?rt [] = Inl StatisticsError"
    by (rule python_mean_Nil)
  have call: "check_if_anomaly_try ?rt ?u (PyStr ''abc'') = (?u', Some TypeError)"
    by (simp add: check_unfold)
  have short: "check_if_anomaly_try ?rt ?w (PyNum 8) = (?w', Some StatisticsError)"
    by (simp add: check_unfold)
  have "check_if_anomaly ?rt ?u (PyStr ''abc'')
      = (?u', [Anomaly_of_model_failed (name ?u) TypeError])"
    using failed_check_keeps_window_and_flags [OF empty, of ?u "PyStr ''abc''" ?u' TypeError] call
    by blast
  moreover have "check_if_anomaly ?rt ?w (PyNum 8)
      = (?w', [Anomaly_of_model_failed (name ?w) StatisticsError])"
    using failed_check_keeps_window_and_flags [OF empty, of ?w "PyNum 8" ?w' StatisticsError] short
    by blast
  moreover have "name ?u = ''sensor''" "name ?w = ''single''"
    by (simp_all add: new_detector_def)
  ultimately show ?thesis using empty call short by simp
qed

text \<open>
  C3, as the claim states it, fails: on a complete window \<open>[1, 1]\<close> of a unit whose
  mean and deviation are still 0, the value \<open>'abc'\<close> raises \<open>TypeError\<close> in
  \<open>abs(value)\<close>, after the mean 1 and the deviation 0.001 have been stored. The unit
  after the call is not the unit before it.
\<close>

theorem failed_check_changes_mean_and_deviation:
  "check_if_anomaly_try (python (\<lambda>n x. True))
       ((new_detector ''sensor'' 2 3)\<lparr>model_data := [PyNum 1, PyNum 1], z_score_thresh := 2\<rparr>)
       (PyStr ''abc'')
     = ((new_detector ''sensor'' 2 3)
          \<lparr>model_data := [PyNum 1, PyNum 1], z_score_thresh := 2,
            model_avg := 1, model_std_dev := 1 / 1000\<rparr>, Some TypeError)
   \<and> check_if_anomaly (python (\<lambda>n x. True))
       ((new_detector ''sensor'' 2 3)\<lparr>model_data := [PyNum 1, PyNum 1], z_score_thresh := 2\<rparr>)
       (PyStr ''abc'')
     = ((new_detector ''sensor'' 2 3)
          \<lparr>model_data := [PyNum 1, PyNum 1], z_score_thresh := 2,
            model_avg := 1, model_std_dev := 1 / 1000\<rparr>,
        [Anomaly_of_model_failed ''sensor'' TypeError])
   \<and> model_avg
       ((new_detector ''sensor'' 2 3)\<lparr>model_data := [PyNum 1, PyNum 1], z_score_thresh := 2\<rparr>)
     = 0
   \<and> model_std_dev
       ((new_detector ''sensor'' 2 3)\<lparr>model_data := [PyNum 1, PyNum 1], z_score_thresh := 2\<rparr>)
     = 0
   \<and> fst (check_if_anomaly (python (\<lambda>n x. True))
        ((new_detector ''sensor'' 2 3)\<lparr>model_data := [PyNum 1, PyNum 1], z_score_thresh := 2\<rparr>)
        (PyStr ''abc''))
     \<noteq> (new_detector ''sensor'' 2 3)\<lparr>model_data := [PyNum 1, PyNum 1], z_score_thresh := 2\<rparr>
   \<and> fst (check_if_anomaly_script (python (\<lambda>n x. True))
        ((new_detector ''sensor'' 2 3)\<lparr>model_data := [PyNum 1, PyNum 1], z_score_thresh := 2\<rparr>)
        (PyStr ''abc''))
     \<noteq> (new_detector ''sensor'' 2 3)\<lparr>model_data := [PyNum 1, PyNum 1], z_score_thresh := 2\<rparr>"
  by (simp add: check_unfold)

section \<open>A unit after a reset and a new unit\<close>

lemma reset_algorithm_new_detector:
  "reset_algorithm u
     = (new_detector (name u) (model_size u) (anomaly_list_size u))
         \<lparr>z_score_thresh := z_score_thresh u\<rparr>"
  by (cases u) (simp add: reset_algorithm_def new_detector_def)

lemma observe_building:
  "model_data u = [] \<Longrightarrow> int (length vs) \<le> model_size u \<Longrightarrow>
   map (\<lambda>r. (observe (fst r), snd r)) (check_trace rt u vs)
     = map (\<lambda>k. ((take (Suc k) vs, int (length (take (Suc k) vs)) = model_size u, anomaly u), []))
         [0..<length vs]"
  using check_trace_building [of u vs rt]
  by (simp add: observe_def is_model_complete_def o_def)

text \<open>
  C9. A unit that was reset is the unit \<open>__init__\<close> makes for the same name and
  capacities, with the threshold it had: so every sequence of \<open>check_if_anomaly\<close> calls
  gives, call for call, the same unit and the same log on both. Compared with a new
  unit whose threshold was never set, the first \<open>N\<close> calls (\<open>N\<close> the capacity)
  still show the same window, the same completeness, the same anomaly flag and the same
  log after each call: these calls build the model and do not read the threshold.
\<close>

theorem reset_then_classify_as_new:
  "check_trace rt (reset_algorithm u) vs
     = check_trace rt ((new_detector (name u) (model_size u) (anomaly_list_size u))
                      \<lparr>z_score_thresh := z_score_thresh u\<rparr>) vs
   \<and> (int (length vs) \<le> model_size u \<longrightarrow>
        map (\<lambda>r. (observe (fst r), snd r)) (check_trace rt (reset_algorithm u) vs)
          = map (\<lambda>r. (observe (fst r), snd r))
              (check_trace rt (new_detector (name u) (model_size u) (anomaly_list_size u)) vs))"
proof (intro conjI impI)
  show "check_trace rt (reset_algorithm u) vs
     = check_trace rt ((new_detector (name u) (model_size u) (anomaly_list_size u))
                      \<lparr>z_score_thresh := z_score_thresh u\<rparr>) vs"
    by (simp add: reset_algorithm_new_detector)
next
  assume len: "int (length vs) \<le> model_size u"
  let ?r = "reset_algorithm u"
  let ?n = "new_detector (name u) (model_size u) (anomaly_list_size u)"
  have r: "model_data ?r = []" "model_size ?r = model_size u" "anomaly ?r = 0"
    by (simp_all add: reset_algorithm_def)
  have n: "model_data ?n = []" "model_size ?n = model_size u" "anomaly ?n = 0"
    by (simp_all add: new_detector_def)
  show "map (\<lambda>r. (observe (fst r), snd r)) (check_trace rt ?r vs)
          = map (\<lambda>r. (observe (fst r), snd r)) (check_trace rt ?n vs)"
    using observe_building [of ?r vs rt] observe_building [of ?n vs rt] len r n by simp
qed

theorem reset_then_classify_as_new_witness:
  "int (length [PyNum 5, PyNum (- 6)])
     \<le> model_size \<lparr>model_data = [PyNum 1, PyNum 2], model_size = 2, anomaly_list = [1, 0],
          anomaly_list_size = 3, anomaly_ratio = 1 / 2, anomaly = 1, model_avg = 3 / 2,
          model_std_dev = 1 / 2, z_score = 9, z_score_thresh = 2, name = ''sensor''\<rparr>
   \<and> map (\<lambda>r. (observe (fst r), snd r))
        (check_trace (python (\<lambda>n x. True))
           (reset_algorithm
              \<lparr>model_data = [PyNum 1, PyNum 2], model_size = 2, anomaly_list = [1, 0],
               anomaly_list_size = 3, anomaly_ratio = 1 / 2, anomaly = 1, model_avg = 3 / 2,
               model_std_dev = 1 / 2, z_score = 9, z_score_thresh = 2, name = ''sensor''\<rparr>)
           [PyNum 5, PyNum (- 6)])
      = [(([PyNum 5], False, 0), []), (([PyNum 5, PyNum (- 6)], True, 0), [])]
   \<and> map (\<lambda>r. (observe (fst r), snd r))
        (check_trace (python (\<lambda>n x. True)) (new_detector ''sensor'' 2 3) [PyNum 5, PyNum (- 6)])
      = [(([PyNum 5], False, 0), []), (([PyNum 5, PyNum (- 6)], True, 0), [])]"
  using reset_then_classify_as_new
    [of "python (\<lambda>n x. True)"
        "\<lparr>model_data = [PyNum 1, PyNum 2], model_size = 2, anomaly_list = [1, 0],
          anomaly_list_size = 3, anomaly_ratio = 1 / 2, anomaly = 1, model_avg = 3 / 2,
          model_std_dev = 1 / 2, z_score = 9, z_score_thresh = 2, name = ''sensor''\<rparr>"
        "[PyNum 5, PyNum (- 6)]"]
  by (simp add: check_unfold observe_def reset_algorithm_def)

section \<open>The anomaly ratio\<close>

lemma calculate_anomaly_ratio_fill:
  "is_model_complete u \<Longrightarrow> int (length (anomaly_list u)) < anomaly_list_size u \<Longrightarrow>
   calculate_anomaly_ratio rt u = (u\<lparr>anomaly_list := anomaly_list u @ [anomaly u]\<rparr>, [])"
  by (simp add: calculate_anomaly_ratio_def calculate_anomaly_ratio_try_def)

lemma calculate_anomaly_ratio_slide:
  "is_model_complete u \<Longrightarrow> \<not> int (length (anomaly_list u)) < anomaly_list_size u \<Longrightarrow>
   anomaly_list u = x # xs \<Longrightarrow> anomaly_list_size u \<noteq> 0 \<Longrightarrow>
   calculate_anomaly_ratio rt u
     = (u\<lparr>anomaly_list := xs @ [anomaly u],
          anomaly_ratio :=
            rt_round rt 3 (of_int (sum_list (xs @ [anomaly u])) / of_int (anomaly_list_size u))\<rparr>,
        [])"
  by (simp add: calculate_anomaly_ratio_def calculate_anomaly_ratio_try_def py_div_def Let_def)

lemma record_flags_fill:
  "is_model_complete u \<Longrightarrow>
   int (length (anomaly_list u)) + int (length fs) \<le> anomaly_list_size u \<Longrightarrow>
   record_flags rt u fs
     = u\<lparr>anomaly := last (anomaly u # fs), anomaly_list := anomaly_list u @ fs\<rparr>"
proof (induction fs arbitrary: u)
  case Nil
  then show ?case by simp
next
  case (Cons f fs)
  let ?u = "u\<lparr>anomaly := f\<rparr>"
  let ?u1 = "?u\<lparr>anomaly_list := anomaly_list ?u @ [anomaly ?u]\<rparr>"
  have complete: "is_model_complete ?u" "is_model_complete ?u1"
    using Cons.prems(1) by (simp_all add: is_model_complete_def)
  have "calculate_anomaly_ratio rt ?u = (?u1, [])"
    using complete(1) Cons.prems(2) by (intro calculate_anomaly_ratio_fill) simp_all
  moreover have "record_flags rt ?u1 fs
      = ?u1\<lparr>anomaly := last (anomaly ?u1 # fs), anomaly_list := anomaly_list ?u1 @ fs\<rparr>"
    using complete(2) Cons.prems(2) by (intro Cons.IH) simp_all
  ultimately show ?case by simp
qed

lemma record_flags_append:
  "record_flags rt u (fs @ gs) = record_flags rt (record_flags rt u fs) gs"
  by (induction fs arbitrary: u) simp_all

text \<open>The definitions \<open>calculate_anomaly_ratio\<close> is evaluated with on a concrete unit.\<close>

lemmas ratio_unfold =
  calculate_anomaly_ratio_def calculate_anomaly_ratio_try_def new_detector_def
  is_model_complete_def python_def py_div_def py_round_def Let_def

text \<open>
  C1, as the code has it. Take a unit with a complete model, an empty list of flags and
  a ratio capacity \<open>K > 0\<close>. The first \<open>K\<close> calls of \<open>calculate_anomaly_ratio\<close> only
  append their flag: the ratio keeps its value. The call after them, number \<open>K + 1\<close>, is
  the first one that finds the list full: it drops the oldest flag, appends its own and
  sets the ratio to \<open>round(sum(flags) / K, 3)\<close>, with Python's \<open>round\<close>. With \<open>K = 3\<close>
  and the flags 1, 1, 1, the ratio is 0.0 after each of the three calls, and 1.0 after a
  fourth call with flag 1.
\<close>

theorem anomaly_ratio_first_recomputed:
  assumes "is_model_complete u" and "anomaly_list u = []" and "0 < anomaly_list_size u"
  shows "(int (length fs) \<le> anomaly_list_size u \<longrightarrow>
            anomaly_ratio (record_flags rt u fs) = anomaly_ratio u
            \<and> anomaly_list (record_flags rt u fs) = fs)
         \<and> (int (length fs) = anomaly_list_size u \<longrightarrow>
            anomaly_ratio (record_flags rt u (fs @ [f]))
              = rt_round rt 3 (of_int (sum_list (tl fs @ [f])) / of_int (anomaly_list_size u))
            \<and> anomaly_list (record_flags rt u (fs @ [f])) = tl fs @ [f])
         \<and> (anomaly_list_size u = 3 \<and> anomaly_ratio u = 0 \<longrightarrow>
            anomaly_ratio (record_flags (python up) u [1]) = 0
            \<and> anomaly_ratio (record_flags (python up) u [1, 1]) = 0
            \<and> anomaly_ratio (record_flags (python up) u [1, 1, 1]) = 0
            \<and> anomaly_ratio (record_flags (python up) u [1, 1, 1, 1]) = 1)"
proof -
  have fill: "record_flags r u gs = u\<lparr>anomaly := last (anomaly u # gs), anomaly_list := gs\<rparr>"
    if "int (length gs) \<le> anomaly_list_size u" for gs r
    using record_flags_fill [of u gs r] assms that by simp
  have slide: "record_flags r u (gs @ [g])
      = u\<lparr>anomaly := g, anomaly_list := tl gs @ [g],
           anomaly_ratio :=
             rt_round r 3 (of_int (sum_list (tl gs @ [g])) / of_int (anomaly_list_size u))\<rparr>"
    if len: "int (length gs) = anomaly_list_size u" for gs g r
  proof -
    let ?w = "u\<lparr>anomaly := g, anomaly_list := gs\<rparr>"
    obtain x xs where gs: "gs = x # xs" using len assms(3) by (cases gs) auto
    have w: "(record_flags r u gs)\<lparr>anomaly := g\<rparr> = ?w"
      using fill [of gs r] len by simp
    have step: "record_flags r u (gs @ [g]) = fst (calculate_anomaly_ratio r ?w)"
      using w by (simp add: record_flags_append)
    have "calculate_anomaly_ratio r ?w
        = (?w\<lparr>anomaly_list := xs @ [anomaly ?w],
             anomaly_ratio :=
               rt_round r 3 (of_int (sum_list (xs @ [anomaly ?w])) / of_int (anomaly_list_size ?w))\<rparr>,
           [])"
    proof (rule calculate_anomaly_ratio_slide)
      show "is_model_complete ?w" using assms(1) by (simp add: is_model_complete_def)
      show "\<not> int (length (anomaly_list ?w)) < anomaly_list_size ?w" using len by simp
      show "anomaly_list ?w = x # xs" using gs by simp
      show "anomaly_list_size ?w \<noteq> 0" using assms(3) by simp
    qed
    then have "fst (calculate_anomaly_ratio r ?w)
        = u\<lparr>anomaly := g, anomaly_list := tl gs @ [g],
             anomaly_ratio :=
               rt_round r 3 (of_int (sum_list (tl gs @ [g])) / of_int (anomaly_list_size u))\<rparr>"
      by (simp add: gs)
    with step show ?thesis by simp
  qed
  have a: "int (length fs) \<le> anomaly_list_size u \<longrightarrow>
            anomaly_ratio (record_flags rt u fs) = anomaly_ratio u
            \<and> anomaly_list (record_flags rt u fs) = fs"
    using fill [of fs rt] by simp
  have b: "int (length fs) = anomaly_list_size u \<longrightarrow>
            anomaly_ratio (record_flags rt u (fs @ [f]))
              = rt_round rt 3 (of_int (sum_list (tl fs @ [f])) / of_int (anomaly_list_size u))
            \<and> anomaly_list (record_flags rt u (fs @ [f])) = tl fs @ [f]"
    using slide [of fs rt f] by simp
  have c: "anomaly_list_size u = 3 \<and> anomaly_ratio u = 0 \<longrightarrow>
            anomaly_ratio (record_flags (python up) u [1]) = 0
            \<and> anomaly_ratio (record_flags (python up) u [1, 1]) = 0
            \<and> anomaly_ratio (record_flags (python up) u [1, 1, 1]) = 0
            \<and> anomaly_ratio (record_flags (python up) u [1, 1, 1, 1]) = 1"
  proof (intro impI, elim conjE)
    assume three: "anomaly_list_size u = 3" and zero: "anomaly_ratio u = 0"
    have "anomaly_ratio (record_flags (python up) u [1]) = 0"
      using fill [of "[1]" "python up"] three zero by simp
    moreover have "anomaly_ratio (record_flags (python up) u [1, 1]) = 0"
      using fill [of "[1, 1]" "python up"] three zero by simp
    moreover have "anomaly_ratio (record_flags (python up) u [1, 1, 1]) = 0"
      using fill [of "[1, 1, 1]" "python up"] three zero by simp
    moreover have "anomaly_ratio (record_flags (python up) u ([1, 1, 1] @ [1])) = 1"
      using slide [of "[1, 1, 1]" "python up" 1] three
      by (simp add: python_def py_round_def)
    ultimately show "anomaly_ratio (record_flags (python up) u [1]) = 0
            \<and> anomaly_ratio (record_flags (python up) u [1, 1]) = 0
            \<and> anomaly_ratio (record_flags (python up) u [1, 1, 1]) = 0
            \<and> anomaly_ratio (record_flags (python up) u [1, 1, 1, 1]) = 1"
      by simp
  qed
  from a b c show ?thesis by blast
qed

theorem anomaly_ratio_first_recomputed_witness:
  "is_model_complete ((new_detector ''sensor'' 2 2)\<lparr>model_data := [PyNum 5, PyNum 6]\<rparr>)
   \<and> anomaly_list ((new_detector ''sensor'' 2 2)\<lparr>model_data := [PyNum 5, PyNum 6]\<rparr>) = []
   \<and> 0 < anomaly_list_size ((new_detector ''sensor'' 2 2)\<lparr>model_data := [PyNum 5, PyNum 6]\<rparr>)
   \<and> int (length [1, 0 :: int])
       = anomaly_list_size ((new_detector ''sensor'' 2 2)\<lparr>model_data := [PyNum 5, PyNum 6]\<rparr>)
   \<and> anomaly_ratio (record_flags (python (\<lambda>n x. True))
        ((new_detector ''sensor'' 2 2)\<lparr>model_data := [PyNum 5, PyNum 6]\<rparr>) [1, 0]) = 0
   \<and> anomaly_ratio (record_flags (python (\<lambda>n x. True))
        ((new_detector ''sensor'' 2 2)\<lparr>model_data := [PyNum 5, PyNum 6]\<rparr>) ([1, 0] @ [1]))
       = 1 / 2
   \<and> anomaly_list (record_flags (python (\<lambda>n x. True))
        ((new_detector ''sensor'' 2 2)\<lparr>model_data := [PyNum 5, PyNum 6]\<rparr>) ([1, 0] @ [1]))
       = [0, 1]"
  using anomaly_ratio_first_recomputed
    [of "(new_detector ''sensor'' 2 2)\<lparr>model_data := [PyNum 5, PyNum 6]\<rparr>" "[1, 0]"
        "python (\<lambda>n x. True)" 1]
  by (simp add: ratio_unfold)

text \<open>
  C1, as the claim states it, fails: with \<open>K = 3\<close> the third flag fills the list, and
  the ratio after the third call is still 0.0, not 1.0.
\<close>

theorem anomaly_ratio_after_third_flag:
  "is_model_complete ((new_detector ''sensor'' 2 3)\<lparr>model_data := [PyNum 5, PyNum 6]\<rparr>)
   \<and> anomaly_list ((new_detector ''sensor'' 2 3)\<lparr>model_data := [PyNum 5, PyNum 6]\<rparr>) = []
   \<and> anomaly_list_size ((new_detector ''sensor'' 2 3)\<lparr>model_data := [PyNum 5, PyNum 6]\<rparr>) = 3
   \<and> anomaly_ratio (record_flags (python (\<lambda>n x. True))
        ((new_detector ''sensor'' 2 3)\<lparr>model_data := [PyNum 5, PyNum 6]\<rparr>) [1, 1]) = 0
   \<and> anomaly_list (record_flags (python (\<lambda>n x. True))
        ((new_detector ''sensor'' 2 3)\<lparr>model_data := [PyNum 5, PyNum 6]\<rparr>) [1, 1, 1])
       = [1, 1, 1]
   \<and> anomaly_ratio (record_flags (python (\<lambda>n x. True))
        ((new_detector ''sensor'' 2 3)\<lparr>model_data := [PyNum 5, PyNum 6]\<rparr>) [1, 1, 1]) = 0
   \<and> anomaly_ratio (record_flags (python (\<lambda>n x. True))
        ((new_detector ''sensor'' 2 3)\<lparr>model_data := [PyNum 5, PyNum 6]\<rparr>) [1, 1, 1]) \<noteq> 1"
  by (simp add: ratio_unfold)

section \<open>Current asymmetry\<close>

text \<open>Where the mean of the three totals is not 0 the asymmetry is a number.\<close>

lemma asymmetry_off_zero_mean:
  "t1 + t2 + t3 \<noteq> 0 \<Longrightarrow>
   calculate_el_current_assymetry kind t1 t2 t3
     = Inr (Finite (100 * ((\<bar>t1 - (t1 + t2 + t3) / 3\<bar> + \<bar>t2 - (t1 + t2 + t3) / 3\<bar>
                             + \<bar>t3 - (t1 + t2 + t3) / 3\<bar>) / ((t1 + t2 + t3) / 3))))"
  by (simp add: calculate_el_current_assymetry_def Let_def)

lemma asymmetry_equal_totals:
  "t \<noteq> 0 \<Longrightarrow> calculate_el_current_assymetry kind t t t = Inr (Finite 0)"
  by (simp add: calculate_el_current_assymetry_def Let_def)

text \<open>
  C2. The asymmetry of the totals 10, 10, 10 is 0 percent. The division by the mean has
  no guard: for the totals 0, 0, 0 (and for any totals of mean 0, such as 1, -1, 0) the
  method raises \<open>ZeroDivisionError\<close> when it computes with Python numbers, and returns
  \<open>nan\<close> (an infinity for 1, -1, 0) when it computes with \<open>numpy.float64\<close> values.
  Neither is the defined value the claim asks for.
\<close>

theorem asymmetry_zero_mean_unguarded:
  "calculate_el_current_assymetry Python_number 0 0 0 = Inl ZeroDivisionError
   \<and> calculate_el_current_assymetry Numpy_float64 0 0 0 = Inr NaN
   \<and> calculate_el_current_assymetry Python_number 1 (- 1) 0 = Inl ZeroDivisionError
   \<and> calculate_el_current_assymetry Numpy_float64 1 (- 1) 0 = Inr Infinity
   \<and> calculate_el_current_assymetry kind 10 10 10 = Inr (Finite 0)"
  by (simp add: calculate_el_current_assymetry_def Let_def)

section \<open>Inrush current\<close>

text \<open>A peak is the index of a sample.\<close>

lemma local_maxima_scan_bound:
  "(\<forall>l. start = Some l \<longrightarrow> l < j) \<Longrightarrow> p \<in> set (local_maxima_scan j prev start xs) \<Longrightarrow>
   p < j + length xs"
proof (induction xs arbitrary: j prev start)
  case Nil
  then show ?case by simp
next
  case (Cons x xs)
  show ?case
  proof (cases "prev < x")
    case True
    then have "p \<in> set (local_maxima_scan (Suc j) x (Some j) xs)" using Cons.prems(2) by simp
    then have "p < Suc j + length xs" by (intro Cons.IH) simp_all
    then show ?thesis by simp
  next
    case False
    show ?thesis
    proof (cases "x < prev")
      case fall: True
      show ?thesis
      proof (cases start)
        case None
        then have "p \<in> set (local_maxima_scan (Suc j) x None xs)"
          using Cons.prems(2) False fall by simp
        then have "p < Suc j + length xs" by (intro Cons.IH) simp_all
        then show ?thesis by simp
      next
        case (Some l)
        then have l: "l < j" using Cons.prems(1) by simp
        from Some have "p = (l + (j - 1)) div 2 \<or> p \<in> set (local_maxima_scan (Suc j) x None xs)"
          using Cons.prems(2) False fall by simp
        then show ?thesis
        proof
          assume "p = (l + (j - 1)) div 2"
          then show ?thesis using l by simp
        next
          assume "p \<in> set (local_maxima_scan (Suc j) x None xs)"
          then have "p < Suc j + length xs" by (intro Cons.IH) simp_all
          then show ?thesis by simp
        qed
      qed
    next
      case level: False
      then have "p \<in> set (local_maxima_scan (Suc j) x start xs)"
        using Cons.prems(2) False by simp
      moreover have "\<forall>l. start = Some l \<longrightarrow> l < Suc j" using Cons.prems(1) by auto
      ultimately have "p < Suc j + length xs" by (intro Cons.IH)
      then show ?thesis by simp
    qed
  qed
qed

lemma find_peaks_in_range:
  assumes "p \<in> set (find_peaks x height)"
  shows "p < length x"
proof (cases x)
  case Nil
  then show ?thesis using assms by (simp add: find_peaks_def local_maxima_1d_def)
next
  case (Cons x0 xs)
  then have "p \<in> set (local_maxima_scan 1 x0 None xs)"
    using assms by (simp add: find_peaks_def local_maxima_1d_def)
  then have "p < 1 + length xs" by (intro local_maxima_scan_bound) simp_all
  then show ?thesis using Cons by simp
qed

lemma inrush_phase_few_peaks:
  "int (length peaks) < peak_number \<Longrightarrow>
   inrush_phase rt u samples peaks z peak_number = Inr (None, u, [])"
  by (simp add: inrush_phase_def)

lemma inrush_phase_enough_peaks:
  assumes "1 \<le> peak_number" and "peak_number \<le> int (length peaks)"
    and "\<forall>p\<in>set peaks. p < length samples"
  shows "\<exists>u' l. inrush_phase rt u samples peaks z peak_number
           = Inr (Some (samples ! (peaks ! nat (peak_number - 1))), u', l)"
proof -
  have k: "nat (peak_number - 1) < length peaks" using assms(1,2) by simp
  then have "peaks ! nat (peak_number - 1) \<in> set peaks" by simp
  then have p: "peaks ! nat (peak_number - 1) < length samples" using assms(3) by blast
  have "py_index peaks (peak_number - 1) = Inr (peaks ! nat (peak_number - 1))"
    using assms(1,2) by (simp add: py_index_def)
  moreover have "py_index samples (int (peaks ! nat (peak_number - 1)))
      = Inr (samples ! (peaks ! nat (peak_number - 1)))"
    using p by (simp add: py_index_def)
  moreover have "peaks \<noteq> []" using k by auto
  ultimately show ?thesis using assms(1,2) by (simp add: inrush_phase_def Let_def)
qed

lemma inrush_phase_returns:
  assumes "1 \<le> peak_number" and "\<forall>p\<in>set peaks. p < length samples"
  shows "\<exists>i u' l. inrush_phase rt u samples peaks z peak_number = Inr (i, u', l)"
proof (cases "peak_number \<le> int (length peaks)")
  case True
  then show ?thesis using inrush_phase_enough_peaks [OF assms(1) True assms(2), of rt u z] by blast
next
  case False
  then show ?thesis by (simp add: inrush_phase_few_peaks)
qed

lemma inrush_unavailable:
  assumes "int (length (find_peaks s1 ht)) < pn \<or> int (length (find_peaks s2 ht)) < pn
           \<or> int (length (find_peaks s3 ht)) < pn"
  shows "\<exists>h' l. calculate_inrush_current_analytics rt h s1 s2 s3 z ht pn
           = Inr ((PyFalse, PyFalse, PyFalse), h', l)"
proof -
  have pn: "1 \<le> pn" using assms by auto
  have range: "\<forall>p\<in>set (find_peaks s ht). p < length s" for s
    using find_peaks_in_range by blast
  obtain i1 u1 l1 where r1: "inrush_phase rt (el_inrush_current_ph1_analytics h) s1
      (find_peaks s1 ht) z pn = Inr (i1, u1, l1)"
    using inrush_phase_returns [OF pn range] by blast
  obtain i2 u2 l2 where r2: "inrush_phase rt (el_inrush_current_ph2_analytics h) s2
      (find_peaks s2 ht) z pn = Inr (i2, u2, l2)"
    using inrush_phase_returns [OF pn range] by blast
  obtain i3 u3 l3 where r3: "inrush_phase rt (el_inrush_current_ph3_analytics h) s3
      (find_peaks s3 ht) z pn = Inr (i3, u3, l3)"
    using inrush_phase_returns [OF pn range] by blast
  have "i1 = None \<or> i2 = None \<or> i3 = None"
    using assms r1 r2 r3 by (auto simp: inrush_phase_few_peaks)
  then show ?thesis
    using r1 r2 r3
    by (auto simp: calculate_inrush_current_analytics_def Let_def split: option.splits)
qed

lemma inrush_available:
  assumes "1 \<le> pn" and "pn \<le> int (length (find_peaks s1 ht))"
    and "pn \<le> int (length (find_peaks s2 ht))" and "pn \<le> int (length (find_peaks s3 ht))"
  shows "\<exists>h' l. calculate_inrush_current_analytics rt h s1 s2 s3 z ht pn
           = Inr ((Inrush (s1 ! (find_peaks s1 ht ! nat (pn - 1))),
                   Inrush (s2 ! (find_peaks s2 ht ! nat (pn - 1))),
                   Inrush (s3 ! (find_peaks s3 ht ! nat (pn - 1)))), h', l)"
proof -
  have range: "\<forall>p\<in>set (find_peaks s ht). p < length s" for s
    using find_peaks_in_range by blast
  obtain u1 l1 where r1: "inrush_phase rt (el_inrush_current_ph1_analytics h) s1
      (find_peaks s1 ht) z pn = Inr (Some (s1 ! (find_peaks s1 ht ! nat (pn - 1))), u1, l1)"
    using inrush_phase_enough_peaks [OF assms(1) assms(2) range] by blast
  obtain u2 l2 where r2: "inrush_phase rt (el_inrush_current_ph2_analytics h) s2
      (find_peaks s2 ht) z pn = Inr (Some (s2 ! (find_peaks s2 ht ! nat (pn - 1))), u2, l2)"
    using inrush_phase_enough_peaks [OF assms(1) assms(3) range] by blast
  obtain u3 l3 where r3: "inrush_phase rt (el_inrush_current_ph3_analytics h) s3
      (find_peaks s3 ht) z pn = Inr (Some (s3 ! (find_peaks s3 ht ! nat (pn - 1))), u3, l3)"
    using inrush_phase_enough_peaks [OF assms(1) assms(4) range] by blast
  show ?thesis
    using r1 r2 r3 by (simp add: calculate_inrush_current_analytics_def Let_def)
qed

lemma find_peaks_example: "find_peaks [0, 0, 5, 0, 0, 8, 0] 3 = [2, 5]"
  by (simp add: find_peaks_def local_maxima_1d_def)

text \<open>
  C6. On the samples \<open>[0, 0, 5, 0, 0, 8, 0]\<close> with height 3 the peaks are at the indices
  2 and 5, with the values 5 and 8. With these samples on all three phases, peak number
  1 selects 5, peak number 2 selects 8, and peak number 3 gives \<open>False, False, False\<close>.
  In general, when one of the three phases has fewer peaks than the peak number, the
  method returns \<open>False, False, False\<close> (it raises nothing), and \<open>read_values\<close> writes
  no record for the cycle. When every phase has at least that many peaks (and the peak
  number is at least 1), the method returns the three selected samples and the record
  is written.
\<close>

theorem inrush_all_or_nothing:
  "find_peaks [0, 0, 5, 0, 0, 8, 0] 3 = [2, 5]
   \<and> map (\<lambda>p. [0, 0, 5, 0, 0, 8, 0 :: real] ! p) (find_peaks [0, 0, 5, 0, 0, 8, 0] 3) = [5, 8]
   \<and> (\<exists>h' l. calculate_inrush_current_analytics rt h
          [0, 0, 5, 0, 0, 8, 0] [0, 0, 5, 0, 0, 8, 0] [0, 0, 5, 0, 0, 8, 0] z 3 1
        = Inr ((Inrush 5, Inrush 5, Inrush 5), h', l))
   \<and> (\<exists>h' l. calculate_inrush_current_analytics rt h
          [0, 0, 5, 0, 0, 8, 0] [0, 0, 5, 0, 0, 8, 0] [0, 0, 5, 0, 0, 8, 0] z 3 2
        = Inr ((Inrush 8, Inrush 8, Inrush 8), h', l))
   \<and> (\<exists>h' l. calculate_inrush_current_analytics rt h
          [0, 0, 5, 0, 0, 8, 0] [0, 0, 5, 0, 0, 8, 0] [0, 0, 5, 0, 0, 8, 0] z 3 3
        = Inr ((PyFalse, PyFalse, PyFalse), h', l))
   \<and> (int (length (find_peaks s1 ht)) < pn \<or> int (length (find_peaks s2 ht)) < pn
        \<or> int (length (find_peaks s3 ht)) < pn \<longrightarrow>
        (\<exists>h' l. calculate_inrush_current_analytics rt h s1 s2 s3 z ht pn
           = Inr ((PyFalse, PyFalse, PyFalse), h', l))
        \<and> \<not> analytics_written (PyFalse, PyFalse, PyFalse))
   \<and> (1 \<le> pn \<and> pn \<le> int (length (find_peaks s1 ht))
        \<and> pn \<le> int (length (find_peaks s2 ht)) \<and> pn \<le> int (length (find_peaks s3 ht)) \<longrightarrow>
        (\<exists>h' l. calculate_inrush_current_analytics rt h s1 s2 s3 z ht pn
           = Inr ((Inrush (s1 ! (find_peaks s1 ht ! nat (pn - 1))),
                   Inrush (s2 ! (find_peaks s2 ht ! nat (pn - 1))),
                   Inrush (s3 ! (find_peaks s3 ht ! nat (pn - 1)))), h', l))
        \<and> analytics_written
             (Inrush (s1 ! (find_peaks s1 ht ! nat (pn - 1))),
              Inrush (s2 ! (find_peaks s2 ht ! nat (pn - 1))),
              Inrush (s3 ! (find_peaks s3 ht ! nat (pn - 1)))))"
proof -
  let ?S = "[0, 0, 5, 0, 0, 8, 0 :: real]"
  have peaks: "find_peaks ?S 3 = [2, 5]" by (rule find_peaks_example)
  have heights: "map (\<lambda>p. ?S ! p) (find_peaks ?S 3) = [5, 8]" by (simp add: peaks)
  have one: "\<exists>h' l. calculate_inrush_current_analytics rt h ?S ?S ?S z 3 1
        = Inr ((Inrush 5, Inrush 5, Inrush 5), h', l)"
    using inrush_available [of 1 ?S 3 ?S ?S rt h z] by (simp add: peaks)
  have two: "\<exists>h' l. calculate_inrush_current_analytics rt h ?S ?S ?S z 3 2
        = Inr ((Inrush 8, Inrush 8, Inrush 8), h', l)"
    using inrush_available [of 2 ?S 3 ?S ?S rt h z] by (simp add: peaks)
  have three: "\<exists>h' l. calculate_inrush_current_analytics rt h ?S ?S ?S z 3 3
        = Inr ((PyFalse, PyFalse, PyFalse), h', l)"
    using inrush_unavailable [of ?S 3 3 ?S ?S rt h z] by (simp add: peaks)
  have closed: "\<not> analytics_written (PyFalse, PyFalse, PyFalse)"
    by (simp add: analytics_written_def)
  have opened: "analytics_written (Inrush a, Inrush b, Inrush c)" for a b c
    by (simp add: analytics_written_def)
  from peaks heights one two three closed opened
    inrush_unavailable [of s1 ht pn s2 s3 rt h z] inrush_available [of pn s1 ht s2 s3 rt h z]
  show ?thesis by blast
qed

theorem inrush_all_or_nothing_witness:
  "int (length (find_peaks [0, 9, 0, 7, 0] 3)) < 3
   \<and> find_peaks [0, 9, 0, 7, 0] 3 = [1, 3]
   \<and> find_peaks [0, 1, 2, 3, 4, 4, 0, 6, 0, 5, 2] 3 = [4, 7, 9]
   \<and> (\<exists>h' l. calculate_inrush_current_analytics (python (\<lambda>n x. True))
          \<lparr>el_current_integr_ph1_analytics = new_detector ''i1'' 2 2,
           el_current_integr_ph2_analytics = new_detector ''i2'' 2 2,
           el_current_integr_ph3_analytics = new_detector ''i3'' 2 2,
           el_inrush_current_ph1_analytics = new_detector ''r1'' 2 2,
           el_inrush_current_ph2_analytics = new_detector ''r2'' 2 2,
           el_inrush_current_ph3_analytics = new_detector ''r3'' 2 2\<rparr>
          [0, 1, 2, 3, 4, 4, 0, 6, 0, 5, 2] [0, 9, 0, 7, 0] [0, 1, 2, 3, 4, 4, 0, 6, 0, 5, 2]
          2 3 3
        = Inr ((PyFalse, PyFalse, PyFalse), h', l))"
  using inrush_all_or_nothing
    [of "python (\<lambda>n x. True)"
        "\<lparr>el_current_integr_ph1_analytics = new_detector ''i1'' 2 2,
           el_current_integr_ph2_analytics = new_detector ''i2'' 2 2,
           el_current_integr_ph3_analytics = new_detector ''i3'' 2 2,
           el_inrush_current_ph1_analytics = new_detector ''r1'' 2 2,
           el_inrush_current_ph2_analytics = new_detector ''r2'' 2 2,
           el_inrush_current_ph3_analytics = new_detector ''r3'' 2 2\<rparr>"
        2 "[0, 1, 2, 3, 4, 4, 0, 6, 0, 5, 2]" 3 3 "[0, 9, 0, 7, 0]"
        "[0, 1, 2, 3, 4, 4, 0, 6, 0, 5, 2]"]
  by (simp add: find_peaks_def local_maxima_1d_def)


end
